theory Spec2Isabelle
  imports Main
begin

section \<open>Data model\<close>

text \<open>
  Identifiers are MongoDB ObjectIds, written in the canonical form that
  \<^verbatim>\<open>toString()\<close> yields; on such values \<^verbatim>\<open>a.equals(b)\<close> and
  \<^verbatim>\<open>a.toString() === b.toString()\<close> are both equality.
  The documents carry the fields the controllers read and write.
\<close>

type_synonym oid = string

record Project =
  project_id :: oid
  project_name :: string
  project_description :: string
  createdBy :: oid

record ProjectMember =
  member_id :: oid
  member_project :: oid
  member_users :: oid
  member_role :: string

datatype date = Date int | InvalidDate

record Task =
  task_id :: oid
  task_title :: string
  task_description :: string
  task_project :: oid
  assignedBy :: oid
  assignedTo :: "oid option"
  task_status :: string
  task_priority :: string
  dueDate :: "date option"

record ProjectNote =
  note_id :: oid
  note_project :: oid
  note_createdBy :: oid
  note_content :: string

record User =
  user_id :: oid
  user_email :: string
  fullName :: string

text \<open>The collections of the database, in insertion order.\<close>

record store =
  Projects :: "Project list"
  ProjectMembers :: "ProjectMember list"
  Tasks :: "Task list"
  ProjectNotes :: "ProjectNote list"
  Users :: "User list"

text \<open>
  What a handler can throw: an \<^verbatim>\<open>ApiError\<close> with its status and message, the
  driver's duplicate-key error (\<^verbatim>\<open>error.code === 11000\<close>), any other rejection of
  a storage call, the driver's refusal of a transaction command in the wrong state, and
  JavaScript's \<^verbatim>\<open>TypeError\<close>, \<^verbatim>\<open>SyntaxError\<close> and \<^verbatim>\<open>ReferenceError\<close>.
\<close>

datatype error =
  ApiError nat string
  | DuplicateKey
  | StorageFailure
  | MongoTransactionError
  | TypeError
  | SyntaxError
  | ReferenceError

text \<open>
  What a handler that does not throw leaves behind: the response it sent
  (\<^verbatim>\<open>res.status(s).json(new ApiResponse(s, data, message))\<close>, the data left out),
  or no response at all when the handler returns without sending one.
\<close>

datatype outcome = ApiResponse nat string | NoResponse

section \<open>The store, its transactions and its failures\<close>

text \<open>
  \<open>db\<close> is the committed state that every read without a session sees.
  \<open>txn\<close> is the working copy of the transaction the session has open, if any:
  operations that pass \<^verbatim>\<open>{ session }\<close> read and write it,
  \<^verbatim>\<open>commitTransaction\<close> installs it and \<^verbatim>\<open>abortTransaction\<close> drops it. A commit
  ends the transaction whether it goes through or rejects, and the driver refuses
  \<^verbatim>\<open>abortTransaction\<close> when no transaction is open ("Cannot call abortTransaction after
  calling commitTransaction"); it never rejects for another reason.
  \<open>pending\<close> decides the storage calls still to come, one element per awaited call in
  program order: \<open>True\<close> makes that call reject; when the list is used up every
  further call goes through.
\<close>

record world =
  db :: store
  txn :: "store option"
  pending :: "bool list"

definition storage_call :: "world \<Rightarrow> bool \<times> world" where
  "storage_call w =
     (case pending w of
        [] \<Rightarrow> (False, w)
      | b # bs \<Rightarrow> (b, w\<lparr>pending := bs\<rparr>))"

definition view :: "world \<Rightarrow> bool \<Rightarrow> store" where
  "view w in_session =
     (if in_session then (case txn w of Some s \<Rightarrow> s | None \<Rightarrow> db w) else db w)"

definition query :: "world \<Rightarrow> bool \<Rightarrow> (store \<Rightarrow> 'a) \<Rightarrow> (error + 'a) \<times> world" where
  "query w in_session f =
     (case storage_call w of
        (failed, w') \<Rightarrow>
          if failed then (Inl StorageFailure, w')
          else (Inr (f (view w' in_session)), w'))"

definition apply_write :: "world \<Rightarrow> bool \<Rightarrow> (store \<Rightarrow> store) \<Rightarrow> world" where
  "apply_write w in_session f =
     (if in_session \<and> txn w \<noteq> None
      then w\<lparr>txn := map_option f (txn w)\<rparr>
      else w\<lparr>db := f (db w)\<rparr>)"

definition mutate :: "world \<Rightarrow> bool \<Rightarrow> (store \<Rightarrow> store) \<Rightarrow> (error + unit) \<times> world" where
  "mutate w in_session f =
     (case storage_call w of
        (failed, w') \<Rightarrow>
          if failed then (Inl StorageFailure, w')
          else (Inr (), apply_write w' in_session f))"

text \<open>\<open>rejects w n\<close>: the \<open>n\<close>-th storage call from now on (counting from 0) rejects.\<close>

definition rejects :: "world \<Rightarrow> nat \<Rightarrow> bool" where
  "rejects w n = (n < length (pending w) \<and> pending w ! n)"

definition startSession :: "world \<Rightarrow> (error + unit) \<times> world" where
  "startSession w =
     (case storage_call w of
        (failed, w') \<Rightarrow> if failed then (Inl StorageFailure, w') else (Inr (), w'))"

definition startTransaction :: "world \<Rightarrow> world" where
  "startTransaction w = w\<lparr>txn := Some (db w)\<rparr>"

definition commitTransaction :: "world \<Rightarrow> (error + unit) \<times> world" where
  "commitTransaction w =
     (case storage_call w of
        (failed, w') \<Rightarrow>
          if failed then (Inl StorageFailure, w'\<lparr>txn := None\<rparr>)
          else (case txn w' of
                  Some s \<Rightarrow> (Inr (), w'\<lparr>db := s, txn := None\<rparr>)
                | None \<Rightarrow> (Inl MongoTransactionError, w')))"

definition abortTransaction :: "world \<Rightarrow> (error + unit) \<times> world" where
  "abortTransaction w =
     (case txn w of
        None \<Rightarrow> (Inl MongoTransactionError, w)
      | Some s \<Rightarrow> (Inr (), w\<lparr>txn := None\<rparr>))"

subsection \<open>Model operations\<close>

definition Project_findById :: "world \<Rightarrow> bool \<Rightarrow> oid \<Rightarrow> (error + Project option) \<times> world" where
  "Project_findById w in_session i =
     query w in_session (\<lambda>s. find (\<lambda>p. project_id p = i) (Projects s))"

text \<open>
  Modelled from the spec: models/project.model.js is not among the sources. The spec gives
  \<open>name\<close> as unique, and the handlers test \<^verbatim>\<open>error.code === 11000\<close> for "a project
  with this Project name already exists": creating a project whose name is taken
  rejects with the duplicate-key error.
\<close>

definition Project_create :: "world \<Rightarrow> bool \<Rightarrow> Project \<Rightarrow> (error + Project) \<times> world" where
  "Project_create w in_session doc =
     (case storage_call w of
        (failed, w') \<Rightarrow>
          if failed then (Inl StorageFailure, w')
          else if list_ex (\<lambda>p. project_name p = project_name doc) (Projects (view w' in_session))
            then (Inl DuplicateKey, w')
            else (Inr doc, apply_write w' in_session (\<lambda>s. s\<lparr>Projects := Projects s @ [doc]\<rparr>)))"

text \<open>
  \<^verbatim>\<open>_id\<close> is unique in a collection, so deleting the document with a given
  \<^verbatim>\<open>_id\<close> removes every document that has it.
\<close>

definition Project_findByIdAndDelete :: "world \<Rightarrow> bool \<Rightarrow> oid \<Rightarrow> (error + unit) \<times> world" where
  "Project_findByIdAndDelete w in_session i =
     mutate w in_session (\<lambda>s. s\<lparr>Projects := filter (\<lambda>p. project_id p \<noteq> i) (Projects s)\<rparr>)"

definition ProjectMember_create ::
  "world \<Rightarrow> bool \<Rightarrow> ProjectMember \<Rightarrow> (error + ProjectMember) \<times> world" where
  "ProjectMember_create w in_session doc =
     (case mutate w in_session (\<lambda>s. s\<lparr>ProjectMembers := ProjectMembers s @ [doc]\<rparr>) of
        (Inl e, w') \<Rightarrow> (Inl e, w')
      | (Inr u, w') \<Rightarrow> (Inr doc, w'))"

definition ProjectMember_deleteMany :: "world \<Rightarrow> bool \<Rightarrow> oid \<Rightarrow> (error + unit) \<times> world" where
  "ProjectMember_deleteMany w in_session p =
     mutate w in_session
       (\<lambda>s. s\<lparr>ProjectMembers := filter (\<lambda>m. member_project m \<noteq> p) (ProjectMembers s)\<rparr>)"

definition ProjectMember_findByIdAndDelete ::
  "world \<Rightarrow> bool \<Rightarrow> oid \<Rightarrow> (error + unit) \<times> world" where
  "ProjectMember_findByIdAndDelete w in_session i =
     mutate w in_session
       (\<lambda>s. s\<lparr>ProjectMembers := filter (\<lambda>m. member_id m \<noteq> i) (ProjectMembers s)\<rparr>)"

definition Task_deleteMany :: "world \<Rightarrow> bool \<Rightarrow> oid \<Rightarrow> (error + unit) \<times> world" where
  "Task_deleteMany w in_session p =
     mutate w in_session (\<lambda>s. s\<lparr>Tasks := filter (\<lambda>t. task_project t \<noteq> p) (Tasks s)\<rparr>)"


definition User_findById :: "world \<Rightarrow> bool \<Rightarrow> oid \<Rightarrow> (error + User option) \<times> world" where
  "User_findById w in_session i =
     query w in_session (\<lambda>s. find (\<lambda>u. user_id u = i) (Users s))"

definition ProjectMember_findOne ::
  "world \<Rightarrow> bool \<Rightarrow> oid \<Rightarrow> oid \<Rightarrow> (error + ProjectMember option) \<times> world" where
  "ProjectMember_findOne w in_session p u =
     query w in_session
       (\<lambda>s. find (\<lambda>m. member_project m = p \<and> member_users m = u) (ProjectMembers s))"

section \<open>Constants (utils/constants.js)\<close>

definition ADMIN :: string where "ADMIN = ''admin''"
definition PROJECT_ADMIN :: string where "PROJECT_ADMIN = ''project_admin''"
definition MEMBER :: string where "MEMBER = ''member''"

definition AvailableUserRoles :: "string list" where
  "AvailableUserRoles = [ADMIN, PROJECT_ADMIN, MEMBER]"

definition AvailableTaskStatus :: "string list" where
  "AvailableTaskStatus =
     [''todo'', ''priority'', ''in_progress'', ''in_review'', ''cancelled'', ''done'']"

definition AvailableTaskPriorities :: "string list" where
  "AvailableTaskPriorities = [''low'', ''medium'', ''high'']"

section \<open>Strings\<close>

text \<open>
  A string is the sequence of its code units, each below 256. \<^verbatim>\<open>String.prototype.trim\<close>
  strips the white space of that range (tab, the line terminators, space, no-break
  space); \<^verbatim>\<open>toLowerCase\<close> maps the upper-case letters of that range, A to Z and the
  Latin-1 ones, to their lower-case forms; \<^verbatim>\<open>Array.prototype.join\<close>.
\<close>

definition is_space :: "char \<Rightarrow> bool" where
  "is_space c =
     (c \<in> set [CHR '' '', CHR 0x09, CHR 0x0A, CHR 0x0B, CHR 0x0C, CHR 0x0D, CHR 0xA0])"

definition trim :: "string \<Rightarrow> string" where
  "trim s = rev (dropWhile is_space (rev (dropWhile is_space s)))"

definition lower_char :: "char \<Rightarrow> char" where
  "lower_char c =
     (if (65::nat) \<le> of_char c \<and> of_char c \<le> (90::nat) \<or>
         (192::nat) \<le> of_char c \<and> of_char c \<le> (222::nat) \<and> of_char c \<noteq> (215::nat)
      then char_of (of_char c + (32::nat)) else c)"

definition toLowerCase :: "string \<Rightarrow> string" where
  "toLowerCase s = map lower_char s"

fun join :: "string \<Rightarrow> string list \<Rightarrow> string" where
  "join sep [] = []"
| "join sep [x] = x"
| "join sep (x # y # ys) = x @ sep @ join sep (y # ys)"

text \<open>
  \<^verbatim>\<open>User.findOne({ email })\<close>: the schema's \<^verbatim>\<open>email\<close> path is declared with
  \<^verbatim>\<open>trim\<close> and \<^verbatim>\<open>lowercase\<close> (user.model.js), and the filter value is cast through
  them.
\<close>

definition User_findOne_email :: "world \<Rightarrow> bool \<Rightarrow> string \<Rightarrow> (error + User option) \<times> world" where
  "User_findOne_email w in_session e =
     query w in_session (\<lambda>s. find (\<lambda>u. user_email u = toLowerCase (trim e)) (Users s))"

section \<open>Role and permission resolver (project.controller.js)\<close>

text \<open>
  \<^verbatim>\<open>mongoose.Types.ObjectId.isValid\<close> on a string: 24 hexadecimal digits.
\<close>

definition is_hex :: "char \<Rightarrow> bool" where
  "is_hex c = (c \<in> set ''0123456789abcdefABCDEF'')"

definition ObjectId_isValid :: "string \<Rightarrow> bool" where
  "ObjectId_isValid s = (length s = 24 \<and> list_all is_hex s)"

text \<open>
  \<^verbatim>\<open>isProjectMember\<close>: both lookups sit in a \<^verbatim>\<open>try\<close> whose \<^verbatim>\<open>catch\<close> returns
  \<^verbatim>\<open>false\<close>.
\<close>

definition isProjectMember :: "world \<Rightarrow> oid \<Rightarrow> oid \<Rightarrow> bool \<times> world" where
  "isProjectMember w projectId userId =
     (if \<not> (ObjectId_isValid projectId \<and> ObjectId_isValid userId) then (False, w)
      else
        (case Project_findById w False projectId of
           (Inl e, w1) \<Rightarrow> (False, w1)
         | (Inr None, w1) \<Rightarrow> (False, w1)
         | (Inr (Some project), w1) \<Rightarrow>
             if createdBy project = userId then (True, w1)
             else
               (case ProjectMember_findOne w1 False projectId userId of
                  (Inl e, w2) \<Rightarrow> (False, w2)
                | (Inr member, w2) \<Rightarrow> (member \<noteq> None, w2))))"

text \<open>
  \<^verbatim>\<open>isProjectAdmin\<close>: the last line is \<^verbatim>\<open>member && member.role === UserRolesEnum.ADMIN\<close>;
  its value is read as a condition by every caller, so \<^verbatim>\<open>null\<close> is \<open>False\<close>.
\<close>

definition isProjectAdmin :: "world \<Rightarrow> oid \<Rightarrow> oid \<Rightarrow> bool \<times> world" where
  "isProjectAdmin w projectId userId =
     (if \<not> (ObjectId_isValid projectId \<and> ObjectId_isValid userId) then (False, w)
      else
        (case Project_findById w False projectId of
           (Inl e, w1) \<Rightarrow> (False, w1)
         | (Inr None, w1) \<Rightarrow> (False, w1)
         | (Inr (Some project), w1) \<Rightarrow>
             if createdBy project = userId then (True, w1)
             else
               (case ProjectMember_findOne w1 False projectId userId of
                  (Inl e, w2) \<Rightarrow> (False, w2)
                | (Inr None, w2) \<Rightarrow> (False, w2)
                | (Inr (Some member), w2) \<Rightarrow> (member_role member = ADMIN, w2))))"

section \<open>Transactional mutations (project.controller.js)\<close>

text \<open>
  \<^verbatim>\<open>createProject\<close>. \<open>newProjectId\<close> and \<open>newMemberId\<close> are the ObjectIds the driver
  generates for the two new documents. The \<^verbatim>\<open>try\<close> block is
  \<open>createProject_transaction\<close>; the \<^verbatim>\<open>catch\<close> aborts and maps the error, and an
  \<^verbatim>\<open>abortTransaction\<close> that throws (after a commit that rejected) leaves the handler
  with that error.
\<close>

definition createProject_transaction ::
  "world \<Rightarrow> oid \<Rightarrow> oid \<Rightarrow> oid \<Rightarrow> string \<Rightarrow> string option \<Rightarrow> (error + outcome) \<times> world" where
  "createProject_transaction w actor newProjectId newMemberId name description =
     (let w1 = startTransaction w;
          projectData = \<lparr>project_id = newProjectId, project_name = name,
            project_description = (case description of None \<Rightarrow> [] | Some d \<Rightarrow> d),
            createdBy = actor\<rparr>
      in case Project_create w1 True projectData of
           (Inl e, w2) \<Rightarrow> (Inl e, w2)
         | (Inr project, w2) \<Rightarrow>
             (case ProjectMember_create w2 True
                     \<lparr>member_id = newMemberId, member_project = project_id project,
                      member_users = actor, member_role = ADMIN\<rparr> of
                (Inl e, w3) \<Rightarrow> (Inl e, w3)
              | (Inr member, w3) \<Rightarrow>
                  (case Project_findById w3 True (project_id project) of
                     (Inl e, w4) \<Rightarrow> (Inl e, w4)
                   | (Inr createdProject, w4) \<Rightarrow>
                       (case commitTransaction w4 of
                          (Inl e, w5) \<Rightarrow> (Inl e, w5)
                        | (Inr u, w5) \<Rightarrow>
                            (Inr (ApiResponse 201 ''Project created successfully''), w5)))))"

definition createProject ::
  "world \<Rightarrow> oid \<Rightarrow> oid \<Rightarrow> oid \<Rightarrow> string \<Rightarrow> string option \<Rightarrow> (error + outcome) \<times> world" where
  "createProject w actor newProjectId newMemberId name description =
     (if trim name = [] then (Inl (ApiError 400 ''Project name is required''), w)
      else
        (case startSession w of
           (Inl e, w0) \<Rightarrow> (Inl e, w0)
         | (Inr u, w0) \<Rightarrow>
             (case createProject_transaction w0 actor newProjectId newMemberId name description of
                (Inr r, w1) \<Rightarrow> (Inr r, w1)
              | (Inl e, w1) \<Rightarrow>
                  (case abortTransaction w1 of
                     (Inl e', w2) \<Rightarrow> (Inl e', w2)
                   | (Inr u, w2) \<Rightarrow>
                       (if e = DuplicateKey
                        then Inl (ApiError 400
                               ''A project with this Project name already exists'')
                        else Inl (ApiError 500
                               ''Internal server error while creating project''),
                        w2)))))"

text \<open>
  \<^verbatim>\<open>deleteProject\<close>. The inner \<^verbatim>\<open>catch\<close> aborts, logs and falls out of the handler
  without a response; the outer \<^verbatim>\<open>catch\<close> turns everything thrown before the
  transaction, and an \<^verbatim>\<open>abortTransaction\<close> that throws, into the 500 error.
\<close>

definition deleteProject_transaction :: "world \<Rightarrow> oid \<Rightarrow> (error + outcome) \<times> world" where
  "deleteProject_transaction w projectId =
     (case Project_findByIdAndDelete w True projectId of
        (Inl e, w1) \<Rightarrow> (Inl e, w1)
      | (Inr u, w1) \<Rightarrow>
          (case ProjectMember_deleteMany w1 True projectId of
             (Inl e, w2) \<Rightarrow> (Inl e, w2)
           | (Inr u, w2) \<Rightarrow>
               (case Task_deleteMany w2 True projectId of
                  (Inl e, w3) \<Rightarrow> (Inl e, w3)
                | (Inr u, w3) \<Rightarrow>
                    (case commitTransaction w3 of
                       (Inl e, w4) \<Rightarrow> (Inl e, w4)
                     | (Inr u, w4) \<Rightarrow>
                         (Inr (ApiResponse 200
                            ''Project and all associated data deleted successfully''), w4)))))"

definition deleteProject_checked :: "world \<Rightarrow> oid \<Rightarrow> oid \<Rightarrow> (error + outcome) \<times> world" where
  "deleteProject_checked w actor projectId =
     (case Project_findById w False projectId of
        (Inl e, w1) \<Rightarrow> (Inl e, w1)
      | (Inr None, w1) \<Rightarrow> (Inl (ApiError 404 ''Project not found''), w1)
      | (Inr (Some project), w1) \<Rightarrow>
          (case isProjectAdmin w1 projectId actor of
             (hasAdminAccess, w2) \<Rightarrow>
               if \<not> hasAdminAccess
               then (Inl (ApiError 403 ''You are not authorized to delete this project''), w2)
               else
                 (case startSession w2 of
                    (Inl e, w3) \<Rightarrow> (Inl e, w3)
                  | (Inr u, w3) \<Rightarrow>
                      (case deleteProject_transaction (startTransaction w3) projectId of
                         (Inr r, w4) \<Rightarrow> (Inr r, w4)
                       | (Inl e, w4) \<Rightarrow>
                           (case abortTransaction w4 of
                              (Inl e', w5) \<Rightarrow> (Inl e', w5)
                            | (Inr u, w5) \<Rightarrow> (Inr NoResponse, w5))))))"

definition deleteProject :: "world \<Rightarrow> oid \<Rightarrow> oid \<Rightarrow> (error + outcome) \<times> world" where
  "deleteProject w actor projectId =
     (if \<not> ObjectId_isValid projectId then (Inl (ApiError 400 ''Invalid project ID''), w)
      else
        (case deleteProject_checked w actor projectId of
           (Inl e, w') \<Rightarrow>
             (Inl (ApiError 500 ''Internal server error while deleting project''), w')
         | (Inr r, w') \<Rightarrow> (Inr r, w')))"

section \<open>Membership lifecycle (project.controller.js)\<close>

text \<open>
  A lean document under a projection: \<^verbatim>\<open>.select(fields).lean()\<close> returns a plain object
  with \<^verbatim>\<open>_id\<close> and the selected paths only; reading any other property of it gives
  \<^verbatim>\<open>undefined\<close> (\<open>None\<close>).
\<close>

record ProjectMember_lean =
  lean_id :: oid
  lean_project :: "oid option"
  lean_users :: "oid option"
  lean_role :: "string option"

definition select_lean :: "string list \<Rightarrow> ProjectMember \<Rightarrow> ProjectMember_lean" where
  "select_lean paths m =
     \<lparr>lean_id = member_id m,
      lean_project = (if ''project'' \<in> set paths then Some (member_project m) else None),
      lean_users = (if ''users'' \<in> set paths then Some (member_users m) else None),
      lean_role = (if ''role'' \<in> set paths then Some (member_role m) else None)\<rparr>"

text \<open>A request value that may be absent: \<^verbatim>\<open>undefined\<close> and the empty string are falsy.\<close>

definition truthy :: "string option \<Rightarrow> bool" where
  "truthy v = (case v of None \<Rightarrow> False | Some s \<Rightarrow> s \<noteq> [])"

definition str :: "string option \<Rightarrow> string" where
  "str v = (case v of None \<Rightarrow> [] | Some s \<Rightarrow> s)"

text \<open>
  \<^verbatim>\<open>addMemberToProject\<close>. The two id and email checks and the role check throw outside the
  \<^verbatim>\<open>try\<close>; everything thrown inside it is re-thrown as the 500 error. After the
  membership is created the handler evaluates
  \<^verbatim>\<open>newMember.populate(..).populate(..).lean()\<close>; a document's \<^verbatim>\<open>populate\<close> returns a
  promise (or, in older Mongoose, the document, which has no \<^verbatim>\<open>lean\<close>), so the chain
  throws a \<^verbatim>\<open>TypeError\<close>. \<open>newMemberId\<close> is the ObjectId generated for the new row.
\<close>

definition addMemberToProject_checked ::
  "world \<Rightarrow> oid \<Rightarrow> oid \<Rightarrow> oid \<Rightarrow> string \<Rightarrow> string \<Rightarrow> (error + outcome) \<times> world" where
  "addMemberToProject_checked w actor newMemberId projectId email memberRoleInput =
     (case Project_findById w False projectId of
        (Inl e, w1) \<Rightarrow> (Inl e, w1)
      | (Inr None, w1) \<Rightarrow> (Inl (ApiError 404 ''Project not found''), w1)
      | (Inr (Some project), w1) \<Rightarrow>
          (case isProjectAdmin w1 projectId actor of
             (hasAdminAccess, w2) \<Rightarrow>
               if \<not> hasAdminAccess
               then (Inl (ApiError 403 ''You are not authorized to add members to this project''), w2)
               else
                 (case User_findOne_email w2 False (toLowerCase email) of
                    (Inl e, w3) \<Rightarrow> (Inl e, w3)
                  | (Inr None, w3) \<Rightarrow>
                      (Inl (ApiError 404 (''User with email '' @ email @ '' not found'')), w3)
                  | (Inr (Some userToAdd), w3) \<Rightarrow>
                      (case ProjectMember_findOne w3 False projectId (user_id userToAdd) of
                         (Inl e, w4) \<Rightarrow> (Inl e, w4)
                       | (Inr (Some existingMember), w4) \<Rightarrow>
                           (Inl (ApiError 400
                              ''User undefined is already a member of the project''), w4)
                       | (Inr None, w4) \<Rightarrow>
                           (let memberRole =
                                  (if memberRoleInput \<in> set AvailableUserRoles
                                   then memberRoleInput else MEMBER)
                            in case ProjectMember_create w4 False
                                      \<lparr>member_id = newMemberId, member_project = projectId,
                                       member_users = user_id userToAdd,
                                       member_role = memberRole\<rparr> of
                                 (Inl e, w5) \<Rightarrow> (Inl e, w5)
                               | (Inr newMember, w5) \<Rightarrow> (Inl TypeError, w5))))))"

definition addMemberToProject ::
  "world \<Rightarrow> oid \<Rightarrow> oid \<Rightarrow> oid \<Rightarrow> string option \<Rightarrow> string option \<Rightarrow> (error + outcome) \<times> world" where
  "addMemberToProject w actor newMemberId projectId email role =
     (if \<not> ObjectId_isValid projectId then (Inl (ApiError 400 ''Invalid project ID''), w)
      else if \<not> (truthy email \<and> trim (str email) \<noteq> [])
        then (Inl (ApiError 400 ''Invalid email ID - Valid email is required''), w)
      else
        (let memberRoleInput = (if truthy role then toLowerCase (str role) else MEMBER)
         in if truthy role \<and> memberRoleInput \<in> set AvailableUserRoles
            then (Inl (ApiError 400
                    (''Invalid role - Valid roles are '' @ join '', '' AvailableUserRoles)), w)
            else
              (case addMemberToProject_checked w actor newMemberId projectId (str email)
                      memberRoleInput of
                 (Inl e, w') \<Rightarrow>
                   (Inl (ApiError 500 ''Internal server error while adding member to project''), w')
               | (Inr r, w') \<Rightarrow> (Inr r, w'))))"

text \<open>
  \<^verbatim>\<open>updateProjectMemberRole\<close>. The membership found is a document; \<^verbatim>\<open>save()\<close> writes it
  back under its \<^verbatim>\<open>_id\<close>.
\<close>

definition ProjectMember_save :: "world \<Rightarrow> ProjectMember \<Rightarrow> (error + unit) \<times> world" where
  "ProjectMember_save w doc =
     mutate w False
       (\<lambda>s. s\<lparr>ProjectMembers :=
              map (\<lambda>m. if member_id m = member_id doc then doc else m) (ProjectMembers s)\<rparr>)"

definition updateProjectMemberRole_checked ::
  "world \<Rightarrow> oid \<Rightarrow> oid \<Rightarrow> oid \<Rightarrow> string \<Rightarrow> (error + outcome) \<times> world" where
  "updateProjectMemberRole_checked w actor projectId memberId role =
     (case Project_findById w False projectId of
        (Inl e, w1) \<Rightarrow> (Inl e, w1)
      | (Inr None, w1) \<Rightarrow> (Inl (ApiError 404 ''Project not found''), w1)
      | (Inr (Some project), w1) \<Rightarrow>
          (case ProjectMember_findOne w1 False projectId memberId of
             (Inl e, w2) \<Rightarrow> (Inl e, w2)
           | (Inr None, w2) \<Rightarrow> (Inl (ApiError 404 ''User not a member of this project''), w2)
           | (Inr (Some memberToUpdatRole), w2) \<Rightarrow>
               (case isProjectAdmin w2 projectId actor of
                  (isCreatorOrAdmin, w3) \<Rightarrow>
                    if \<not> isCreatorOrAdmin
                    then (Inl (ApiError 403
                            ''You are not authorized to update this project member role''), w3)
                    else
                      (case ProjectMember_save w3 (memberToUpdatRole\<lparr>member_role := role\<rparr>) of
                         (Inl e, w4) \<Rightarrow> (Inl e, w4)
                       | (Inr u, w4) \<Rightarrow>
                           (Inr (ApiResponse 200
                              ''Project member role updated successfully''), w4)))))"

definition updateProjectMemberRole ::
  "world \<Rightarrow> oid \<Rightarrow> oid \<Rightarrow> oid \<Rightarrow> string option \<Rightarrow> (error + outcome) \<times> world" where
  "updateProjectMemberRole w actor projectId memberId role =
     (if \<not> (ObjectId_isValid projectId \<and> ObjectId_isValid memberId)
      then (Inl (ApiError 400 ''Invalid project ID or member ID''), w)
      else if \<not> (truthy role \<and> str role \<in> set AvailableUserRoles)
        then (Inl (ApiError 400
                (''Invalid role - Valid roles are '' @ join '', '' AvailableUserRoles)), w)
      else
        (case updateProjectMemberRole_checked w actor projectId memberId (str role) of
           (Inl e, w') \<Rightarrow>
             (Inl (ApiError 500 ''Internal server error while updating project member role''),
              w')
         | (Inr r, w') \<Rightarrow> (Inr r, w')))"

text \<open>
  \<^verbatim>\<open>removeMemberFromProject\<close>. The membership is read with \<^verbatim>\<open>.select("user").lean()\<close>,
  while the field is \<^verbatim>\<open>users\<close>: \<^verbatim>\<open>memberToRemove.users\<close> is \<^verbatim>\<open>undefined\<close> and calling
  \<^verbatim>\<open>.equals\<close> on it throws. \<^verbatim>\<open>selfRemoval\<close> and \<^verbatim>\<open>isAdmin\<close> are computed and not
  tested before the delete.
\<close>

definition removeMemberFromProject_checked ::
  "world \<Rightarrow> oid \<Rightarrow> oid \<Rightarrow> oid \<Rightarrow> (error + outcome) \<times> world" where
  "removeMemberFromProject_checked w actor projectId memberId =
     (case Project_findById w False projectId of
        (Inl e, w1) \<Rightarrow> (Inl e, w1)
      | (Inr None, w1) \<Rightarrow> (Inl (ApiError 404 ''Project not found''), w1)
      | (Inr (Some project), w1) \<Rightarrow>
          (case ProjectMember_findOne w1 False projectId memberId of
             (Inl e, w2) \<Rightarrow> (Inl e, w2)
           | (Inr None, w2) \<Rightarrow> (Inl (ApiError 404 ''User not a member of this project''), w2)
           | (Inr (Some found), w2) \<Rightarrow>
               (let memberToRemove = select_lean [''user''] found
                in if createdBy project = memberId
                   then (Inl (ApiError 400
                           ''Project creator cannot be removed from the project''), w2)
                   else
                     (case lean_users memberToRemove of
                        None \<Rightarrow> (Inl TypeError, w2)
                      | Some users_field \<Rightarrow>
                          (let selfRemoval = (users_field = actor)
                           in case isProjectAdmin w2 projectId actor of
                                (isAdmin, w3) \<Rightarrow>
                                  (case ProjectMember_findByIdAndDelete w3 False
                                          (lean_id memberToRemove) of
                                     (Inl e, w4) \<Rightarrow> (Inl e, w4)
                                   | (Inr u, w4) \<Rightarrow>
                                       (Inr (ApiResponse 200
                                          ''Member removed from project successfully''),
                                        w4)))))))"

definition removeMemberFromProject ::
  "world \<Rightarrow> oid \<Rightarrow> oid \<Rightarrow> oid \<Rightarrow> (error + outcome) \<times> world" where
  "removeMemberFromProject w actor projectId memberId =
     (if \<not> (ObjectId_isValid projectId \<and> ObjectId_isValid memberId)
      then (Inl (ApiError 400 ''Invalid project ID or member ID''), w)
      else
        (case removeMemberFromProject_checked w actor projectId memberId of
           (Inl e, w') \<Rightarrow>
             (Inl (ApiError 500 ''Internal server error while removing member from project''),
              w')
         | (Inr r, w') \<Rightarrow> (Inr r, w')))"

section \<open>The helpers of utils/helper.js\<close>

text \<open>
  task.controller.js imports \<^verbatim>\<open>isProjectMember\<close>, \<^verbatim>\<open>isProjectAdmin\<close> and
  \<^verbatim>\<open>isValidDate\<close> from utils/helper.js, whose text is in src/index.js (lines 31 to 115).
  That module imports the two models and nothing else: \<^verbatim>\<open>mongoose\<close> is not bound in it,
  and the first thing both resolvers evaluate, before their \<^verbatim>\<open>try\<close>, is
  \<^verbatim>\<open>mongoose.Types.ObjectId.isValid(projectId)\<close>. Evaluating the unbound identifier
  throws a \<^verbatim>\<open>ReferenceError\<close>, so the promise they return rejects. \<open>helper_mongoose\<close>
  is what evaluating that identifier gives.
\<close>

definition helper_mongoose :: "error + unit" where
  "helper_mongoose = Inl ReferenceError"

definition helper_isProjectMember :: "world \<Rightarrow> oid \<Rightarrow> oid \<Rightarrow> (error + bool) \<times> world" where
  "helper_isProjectMember w projectId userId =
     (case helper_mongoose of
        Inl e \<Rightarrow> (Inl e, w)
      | Inr mongoose \<Rightarrow>
          (if \<not> (ObjectId_isValid projectId \<and> ObjectId_isValid userId) then (Inr False, w)
           else
             (case Project_findById w False projectId of
                (Inl e, w1) \<Rightarrow> (Inr False, w1)
              | (Inr None, w1) \<Rightarrow> (Inr False, w1)
              | (Inr (Some project), w1) \<Rightarrow>
                  if createdBy project = userId then (Inr True, w1)
                  else
                    (case ProjectMember_findOne w1 False projectId userId of
                       (Inl e, w2) \<Rightarrow> (Inr False, w2)
                     | (Inr member, w2) \<Rightarrow> (Inr (member \<noteq> None), w2)))))"

text \<open>
  In the helper's \<^verbatim>\<open>isProjectAdmin\<close>, \<^verbatim>\<open>UserRolesEnum\<close> is not bound either: where a
  membership row is found, comparing its role with \<^verbatim>\<open>UserRolesEnum.ADMIN\<close> throws
  inside the \<^verbatim>\<open>try\<close>, and the \<^verbatim>\<open>catch\<close> returns \<^verbatim>\<open>false\<close>.
\<close>

definition helper_isProjectAdmin :: "world \<Rightarrow> oid \<Rightarrow> oid \<Rightarrow> (error + bool) \<times> world" where
  "helper_isProjectAdmin w projectId userId =
     (case helper_mongoose of
        Inl e \<Rightarrow> (Inl e, w)
      | Inr mongoose \<Rightarrow>
          (if \<not> (ObjectId_isValid projectId \<and> ObjectId_isValid userId) then (Inr False, w)
           else
             (case Project_findById w False projectId of
                (Inl e, w1) \<Rightarrow> (Inr False, w1)
              | (Inr None, w1) \<Rightarrow> (Inr False, w1)
              | (Inr (Some project), w1) \<Rightarrow>
                  if createdBy project = userId then (Inr True, w1)
                  else
                    (case ProjectMember_findOne w1 False projectId userId of
                       (Inl e, w2) \<Rightarrow> (Inr False, w2)
                     | (Inr None, w2) \<Rightarrow> (Inr False, w2)
                     | (Inr (Some member), w2) \<Rightarrow> (Inr False, w2)))))"




section \<open>Task listing (project.controller.js and task.controller.js)\<close>

text \<open>
  \<^verbatim>\<open>parseInt(s, 10)\<close>: leading white space, an optional sign, then the longest run of
  decimal digits; \<open>None\<close> is \<^verbatim>\<open>NaN\<close>.
\<close>

definition is_digit :: "char \<Rightarrow> bool" where
  "is_digit c = (c \<in> set ''0123456789'')"

definition digit_val :: "char \<Rightarrow> nat" where
  "digit_val c = of_char c - 48"

definition parseInt :: "string \<Rightarrow> int option" where
  "parseInt s =
     (let t = dropWhile is_space s;
          neg = (t \<noteq> [] \<and> hd t = CHR ''-'');
          u = (if t \<noteq> [] \<and> (hd t = CHR ''-'' \<or> hd t = CHR ''+'') then tl t else t);
          ds = takeWhile is_digit u
      in if ds = [] then None
         else Some ((if neg then - 1 else 1) * int (foldl (\<lambda>a c. 10 * a + digit_val c) 0 ds)))"

text \<open>
  \<^verbatim>\<open>obj[key] = v\<close> on a plain object with a number \<open>v\<close>. The key \<^verbatim>\<open>__proto__\<close> reaches the
  inherited setter, which ignores a value that is not an object: no property is created.
\<close>

definition set_property :: "(string \<times> int) list \<Rightarrow> string \<Rightarrow> int \<Rightarrow> (string \<times> int) list" where
  "set_property obj k v =
     (if k = ''__proto__'' then obj
      else if k \<in> set (map fst obj)
        then map (\<lambda>kv. if fst kv = k then (k, v) else kv) obj
        else obj @ [(k, v)])"

text \<open>The query string of a listing request; each handler reads its own parameter names.\<close>

record list_query =
  q_page :: "string option"
  q_limit :: "string option"
  q_sortBy :: "string option"
  q_sortOrder :: "string option"
  q_sort :: "string option"
  q_order :: "string option"
  q_status :: "string option"
  q_assignedTo :: "string option"
  q_search :: "string option"
  q_priority :: "string option"

text \<open>
  What the handler sends to the store: the filter, the sort specification, skip and
  limit. \<open>f_regex\<close> is the source of the case-insensitive pattern matched against title
  and description, \<open>f_text\<close> the \<^verbatim>\<open>$text\<close> search string.
\<close>

record task_filter =
  f_project :: oid
  f_status :: "string option"
  f_assignedTo :: "oid option"
  f_priority :: "string option"
  f_regex :: "string option"
  f_text :: "string option"

record find_spec =
  spec_filter :: task_filter
  spec_sort :: "(string \<times> int) list"
  spec_skip :: int
  spec_limit :: int

text \<open>
  \<^verbatim>\<open>Task.countDocuments(filter)\<close> and \<^verbatim>\<open>Task.find(filter).sort(..).skip(..).limit(..)\<close>:
  the documents they return go into the response as they are; what is modelled is
  whether the call rejects.
\<close>

definition Task_countDocuments :: "world \<Rightarrow> task_filter \<Rightarrow> (error + unit) \<times> world" where
  "Task_countDocuments w flt = query w False (\<lambda>s. ())"

definition Task_find :: "world \<Rightarrow> find_spec \<Rightarrow> (error + unit) \<times> world" where
  "Task_find w spec = query w False (\<lambda>s. ())"

definition allowedSortBy :: "string list" where
  "allowedSortBy = [''createdAt'', ''updatedAt'', ''title'', ''status'']"

text \<open>
  \<^verbatim>\<open>getProjectTasks\<close> (project.controller.js). \<open>RegExp_ok\<close> tells whether
  \<^verbatim>\<open>new RegExp(term, 'i')\<close> accepts the pattern; it throws a \<^verbatim>\<open>SyntaxError\<close> otherwise.
\<close>

definition getProjectTasks_checked ::
  "(string \<Rightarrow> bool) \<Rightarrow> world \<Rightarrow> oid \<Rightarrow> oid \<Rightarrow> list_query \<Rightarrow> (string \<times> int) list \<Rightarrow> int \<Rightarrow> int
     \<Rightarrow> (error + find_spec) \<times> world" where
  "getProjectTasks_checked RegExp_ok w actor projectId q sortOptions skip limit =
     (case Project_findById w False projectId of
        (Inl e, w1) \<Rightarrow> (Inl e, w1)
      | (Inr None, w1) \<Rightarrow> (Inl (ApiError 404 ''Project not found''), w1)
      | (Inr (Some project), w1) \<Rightarrow>
          (case isProjectMember w1 projectId actor of
             (isMember, w2) \<Rightarrow>
               if \<not> isMember
               then (Inl (ApiError 403 ''You are not authorized to view this project tasks''), w2)
               else if truthy (q_search q) \<and> trim (str (q_search q)) \<noteq> [] \<and>
                       \<not> RegExp_ok (trim (str (q_search q)))
                 then (Inl SyntaxError, w2)
               else
                 (let flt = \<lparr>f_project = projectId,
                       f_status =
                         (if truthy (q_status q) \<and>
                             toLowerCase (str (q_status q)) \<in> set AvailableTaskStatus
                          then Some (toLowerCase (str (q_status q))) else None),
                       f_assignedTo =
                         (if truthy (q_assignedTo q) \<and> ObjectId_isValid (str (q_assignedTo q))
                          then q_assignedTo q else None),
                       f_priority = None,
                       f_regex =
                         (if truthy (q_search q) \<and> trim (str (q_search q)) \<noteq> []
                          then Some (trim (str (q_search q))) else None),
                       f_text = None\<rparr>;
                      spec = \<lparr>spec_filter = flt, spec_sort = sortOptions, spec_skip = skip,
                        spec_limit = limit\<rparr>
                  in case Task_countDocuments w2 flt of
                       (Inl e, w3) \<Rightarrow> (Inl e, w3)
                     | (Inr totalTasks, w3) \<Rightarrow>
                         (case Task_find w3 spec of
                            (Inl e, w4) \<Rightarrow> (Inl e, w4)
                          | (Inr found, w4) \<Rightarrow> (Inr spec, w4)))))"

definition getProjectTasks ::
  "(string \<Rightarrow> bool) \<Rightarrow> world \<Rightarrow> oid \<Rightarrow> oid \<Rightarrow> list_query \<Rightarrow> (error + find_spec) \<times> world" where
  "getProjectTasks RegExp_ok w actor projectId q =
     (if \<not> ObjectId_isValid projectId then (Inl (ApiError 400 ''Invalid project ID''), w)
      else
        (let page0 = (case q_page q of None \<Rightarrow> Some 1 | Some s \<Rightarrow> parseInt s);
             limit0 = (case q_limit q of None \<Rightarrow> Some 10 | Some s \<Rightarrow> parseInt s);
             page = (case page0 of None \<Rightarrow> 1 | Some n \<Rightarrow> if n > 0 then n else 1);
             limit = (case limit0 of None \<Rightarrow> 10 | Some n \<Rightarrow> if n > 0 then n else 10);
             skip = (page - 1) * limit;
             sortBy0 = (case q_sortBy q of None \<Rightarrow> ''createdAt'' | Some s \<Rightarrow> s);
             sortBy = (if sortBy0 \<in> set allowedSortBy then sortBy0 else ''createdAt'');
             sortOrder0 = (case q_sortOrder q of None \<Rightarrow> ''desc'' | Some s \<Rightarrow> s);
             sortOrder = (if toLowerCase sortOrder0 = ''asc'' then 1 else - 1);
             sortOptions = set_property [] sortBy sortOrder
         in case getProjectTasks_checked RegExp_ok w actor projectId q sortOptions skip limit of
              (Inl e, w') \<Rightarrow>
                (Inl (ApiError 500 ''Internal server error while getting project tasks''), w')
            | (Inr r, w') \<Rightarrow> (Inr r, w')))"

text \<open>
  \<^verbatim>\<open>getProjectTask\<close> (task.controller.js). Every check is inside the \<^verbatim>\<open>try\<close>, and the
  membership check is the helper's. \<open>getProjectTask_sortOptions\<close> is the sort object of
  lines 50 to 52: \<^verbatim>\<open>sortOptions[sort] = order === "asc" ? 1 : -1\<close>.
\<close>

definition getProjectTask_sortOptions :: "list_query \<Rightarrow> (string \<times> int) list" where
  "getProjectTask_sortOptions q =
     (let sort = (case q_sort q of None \<Rightarrow> ''createdAt'' | Some s \<Rightarrow> s);
          order = (case q_order q of None \<Rightarrow> ''desc'' | Some s \<Rightarrow> s)
      in set_property [] sort (if order = ''asc'' then 1 else - 1))"

definition getProjectTask_checked ::
  "world \<Rightarrow> oid \<Rightarrow> oid \<Rightarrow> list_query \<Rightarrow> (error + find_spec) \<times> world" where
  "getProjectTask_checked w actor projectId q =
     (if \<not> ObjectId_isValid projectId then (Inl (ApiError 400 ''Invalid project ID''), w)
      else
        (case Project_findById w False projectId of
           (Inl e, w1) \<Rightarrow> (Inl e, w1)
         | (Inr None, w1) \<Rightarrow> (Inl (ApiError 404 ''Project not found''), w1)
         | (Inr (Some project), w1) \<Rightarrow>
             (case helper_isProjectMember w1 projectId actor of
                (Inl e, w2) \<Rightarrow> (Inl e, w2)
              | (Inr isMember, w2) \<Rightarrow>
                  if \<not> isMember
                  then (Inl (ApiError 403 ''You are not authorized to view this project tasks''),
                        w2)
                  else
                    (let page = (case parseInt (str (q_page q)) of
                                   None \<Rightarrow> 1 | Some n \<Rightarrow> if n = 0 then 1 else n);
                         limit = (case parseInt (str (q_limit q)) of
                                    None \<Rightarrow> 10 | Some n \<Rightarrow> if n = 0 then 10 else n);
                         skip = (page - 1) * limit;
                         sortOptions = getProjectTask_sortOptions q;
                         flt = \<lparr>f_project = projectId,
                           f_status =
                             (if truthy (q_status q) \<and>
                                 toLowerCase (str (q_status q)) \<in> set AvailableTaskStatus
                              then Some (toLowerCase (str (q_status q))) else None),
                           f_assignedTo =
                             (if truthy (q_assignedTo q) \<and>
                                 ObjectId_isValid (str (q_assignedTo q))
                              then q_assignedTo q else None),
                           f_priority =
                             (if truthy (q_priority q) \<and>
                                 toLowerCase (str (q_priority q)) \<in> set AvailableTaskPriorities
                              then Some (toLowerCase (str (q_priority q))) else None),
                           f_regex = None,
                           f_text =
                             (if truthy (q_search q) \<and> trim (str (q_search q)) \<noteq> []
                              then q_search q else None)\<rparr>;
                         spec = \<lparr>spec_filter = flt, spec_sort = sortOptions, spec_skip = skip,
                           spec_limit = limit\<rparr>
                     in case Task_countDocuments w2 flt of
                          (Inl e, w3) \<Rightarrow> (Inl e, w3)
                        | (Inr totalTasks, w3) \<Rightarrow>
                            (case Task_find w3 spec of
                               (Inl e, w4) \<Rightarrow> (Inl e, w4)
                             | (Inr found, w4) \<Rightarrow> (Inr spec, w4))))))"

definition getProjectTask ::
  "world \<Rightarrow> oid \<Rightarrow> oid \<Rightarrow> list_query \<Rightarrow> (error + find_spec) \<times> world" where
  "getProjectTask w actor projectId q =
     (case getProjectTask_checked w actor projectId q of
        (Inl e, w') \<Rightarrow>
          (Inl (ApiError 500 ''Internal server error while getting project tasks''), w')
      | (Inr r, w') \<Rightarrow> (Inr r, w'))"

section \<open>Task update (task.controller.js)\<close>






text \<open>
  The assignee check of \<^verbatim>\<open>updateTask\<close>, run when \<^verbatim>\<open>assignedTo\<close> is given and differs
  from the task's.
\<close>

definition check_assignee :: "world \<Rightarrow> Task \<Rightarrow> string \<Rightarrow> (error + unit) \<times> world" where
  "check_assignee w task a =
     (if \<not> ObjectId_isValid a then (Inl (ApiError 400 ''Invalid assignedTo user ID''), w)
      else
        (case User_findById w False a of
           (Inl e, w1) \<Rightarrow> (Inl e, w1)
         | (Inr None, w1) \<Rightarrow> (Inl (ApiError 404 ''Assigned to user not found''), w1)
         | (Inr (Some assignedToUser), w1) \<Rightarrow>
             (case helper_isProjectMember w1 (task_project task) a of
                (Inl e, w2) \<Rightarrow> (Inl e, w2)
              | (Inr isUserMember, w2) \<Rightarrow>
                  if \<not> isUserMember
                  then (Inl (ApiError 403 ''Assigned to user is not a member of the project''),
                        w2)
                  else (Inr (), w2))))"




section \<open>Notions the properties are stated with\<close>

text \<open>The world after one storage call has been decided.\<close>

definition tick :: "world \<Rightarrow> world" where
  "tick w = snd (storage_call w)"

text \<open>
  The store without project \<open>p\<close>, its membership rows and its task rows; everything
  else, the notes among it, as it was.
\<close>

definition without_project :: "oid \<Rightarrow> store \<Rightarrow> store" where
  "without_project p s =
     s\<lparr>Projects := filter (\<lambda>x. project_id x \<noteq> p) (Projects s),
       ProjectMembers := filter (\<lambda>m. member_project m \<noteq> p) (ProjectMembers s),
       Tasks := filter (\<lambda>t. task_project t \<noteq> p) (Tasks s)\<rparr>"

text \<open>
  The actor is authorized for the project in the store: \<open>isProjectAdmin\<close> holds when
  no lookup fails.
\<close>

definition is_admin_of :: "store \<Rightarrow> oid \<Rightarrow> oid \<Rightarrow> bool" where
  "is_admin_of s projectId userId =
     fst (isProjectAdmin \<lparr>db = s, txn = None, pending = []\<rparr> projectId userId)"

text \<open>No storage call still to come rejects.\<close>

definition no_rejection :: "world \<Rightarrow> bool" where
  "no_rejection w = list_all (\<lambda>b. \<not> b) (pending w)"


section \<open>A small database\<close>

text \<open>
  Project Alpha (\<open>P1\<close>) is created by \<open>U1\<close>, who also holds an admin row; \<open>U2\<close> is a
  member of it and \<open>U4\<close> holds the role \<^verbatim>\<open>project_admin\<close>. Project Beta (\<open>P2\<close>) is created
  by \<open>U3\<close>, with \<open>U2\<close> as admin. \<open>P3\<close> names no project.
\<close>

definition P1 :: oid where "P1 = ''aaaaaaaaaaaaaaaaaaaaaaa1''"
definition P2 :: oid where "P2 = ''aaaaaaaaaaaaaaaaaaaaaaa2''"
definition P3 :: oid where "P3 = ''aaaaaaaaaaaaaaaaaaaaaaa3''"
definition U1 :: oid where "U1 = ''bbbbbbbbbbbbbbbbbbbbbbb1''"
definition U2 :: oid where "U2 = ''bbbbbbbbbbbbbbbbbbbbbbb2''"
definition U3 :: oid where "U3 = ''bbbbbbbbbbbbbbbbbbbbbbb3''"
definition U4 :: oid where "U4 = ''bbbbbbbbbbbbbbbbbbbbbbb4''"

definition example_store :: store where
  "example_store =
     \<lparr>Projects =
        [\<lparr>project_id = P1, project_name = ''Alpha'', project_description = [], createdBy = U1\<rparr>,
         \<lparr>project_id = P2, project_name = ''Beta'', project_description = [], createdBy = U3\<rparr>],
      ProjectMembers =
        [\<lparr>member_id = ''ccccccccccccccccccccccc1'', member_project = P1, member_users = U1,
          member_role = ''admin''\<rparr>,
         \<lparr>member_id = ''ccccccccccccccccccccccc2'', member_project = P1, member_users = U2,
          member_role = ''member''\<rparr>,
         \<lparr>member_id = ''ccccccccccccccccccccccc3'', member_project = P1, member_users = U4,
          member_role = ''project_admin''\<rparr>,
         \<lparr>member_id = ''ccccccccccccccccccccccc4'', member_project = P2, member_users = U2,
          member_role = ''admin''\<rparr>],
      Tasks =
        [\<lparr>task_id = ''ddddddddddddddddddddddd1'', task_title = ''Design'', task_description = [],
          task_project = P1, assignedBy = U1, assignedTo = Some U2, task_status = ''todo'',
          task_priority = ''medium'', dueDate = Some (Date 86400000)\<rparr>,
         \<lparr>task_id = ''ddddddddddddddddddddddd2'', task_title = ''Review'', task_description = [],
          task_project = P2, assignedBy = U3, assignedTo = None, task_status = ''todo'',
          task_priority = ''low'', dueDate = None\<rparr>],
      ProjectNotes =
        [\<lparr>note_id = ''eeeeeeeeeeeeeeeeeeeeeee1'', note_project = P1, note_createdBy = U2,
          note_content = ''kickoff''\<rparr>,
         \<lparr>note_id = ''eeeeeeeeeeeeeeeeeeeeeee2'', note_project = P2, note_createdBy = U3,
          note_content = ''retro''\<rparr>],
      Users =
        [\<lparr>user_id = U1, user_email = ''u1@example.com'', fullName = ''Ann''\<rparr>,
         \<lparr>user_id = U2, user_email = ''u2@example.com'', fullName = ''Bob''\<rparr>,
         \<lparr>user_id = U3, user_email = ''u3@example.com'', fullName = ''Cy''\<rparr>,
         \<lparr>user_id = U4, user_email = ''u4@example.com'', fullName = ''Di''\<rparr>]\<rparr>"

definition example_world :: "bool list \<Rightarrow> world" where
  "example_world faults = \<lparr>db = example_store, txn = None, pending = faults\<rparr>"



text \<open>A listing request without parameters, and an update body without fields.\<close>

definition no_query :: list_query where
  "no_query =
     \<lparr>q_page = None, q_limit = None, q_sortBy = None, q_sortOrder = None, q_sort = None,
      q_order = None, q_status = None, q_assignedTo = None, q_search = None, q_priority = None\<rparr>"




section \<open>Storage calls\<close>

lemma storage_call_eq: "storage_call w = (rejects w 0, tick w)"
  by (cases "pending w") (auto simp: storage_call_def rejects_def tick_def)

lemma tick_simps [simp]: "db (tick w) = db w" "txn (tick w) = txn w"
  by (cases "pending w"; simp add: storage_call_def tick_def)+

lemma rejects_tick [simp]: "rejects (tick w) n = rejects w (Suc n)"
  by (cases "pending w") (auto simp: storage_call_def rejects_def tick_def)

lemma query_eq:
  "query w s f = (if rejects w 0 then Inl StorageFailure else Inr (f (view (tick w) s)), tick w)"
  by (simp add: query_def storage_call_eq)

lemma mutate_eq:
  "mutate w s f =
     (if rejects w 0 then (Inl StorageFailure, tick w) else (Inr (), apply_write (tick w) s f))"
  by (simp add: mutate_def storage_call_eq)

lemma commit_eq:
  "commitTransaction w =
     (if rejects w 0 then (Inl StorageFailure, (tick w)\<lparr>txn := None\<rparr>)
      else case txn w of Some s \<Rightarrow> (Inr (), (tick w)\<lparr>db := s, txn := None\<rparr>)
           | None \<Rightarrow> (Inl MongoTransactionError, tick w))"
  by (simp add: commitTransaction_def storage_call_eq)

lemma startSession_eq:
  "startSession w = (if rejects w 0 then Inl StorageFailure else Inr (), tick w)"
  by (simp add: startSession_def storage_call_eq)

lemma view_False [simp]: "view w False = db w"
  by (simp add: view_def)

lemma tick_record [simp]:
  "tick \<lparr>db = d, txn = t, pending = []\<rparr> = \<lparr>db = d, txn = t, pending = []\<rparr>"
  "tick \<lparr>db = d, txn = t, pending = b # bs\<rparr> = \<lparr>db = d, txn = t, pending = bs\<rparr>"
  by (simp_all add: tick_def storage_call_def)

lemma rejects_record [simp]:
  "rejects \<lparr>db = d, txn = t, pending = []\<rparr> n = False"
  "rejects \<lparr>db = d, txn = t, pending = b # bs\<rparr> 0 = b"
  "rejects \<lparr>db = d, txn = t, pending = b # bs\<rparr> (Suc n) =
     rejects \<lparr>db = d, txn = t, pending = bs\<rparr> n"
  by (simp_all add: rejects_def)

section \<open>The string helpers on examples\<close>

lemma trim_example: "trim ''  a b  '' = ''a b'' \<and> trim ''   '' = []"
  by (simp add: trim_def is_space_def)

lemma toLowerCase_example: "toLowerCase ''Project_Admin'' = ''project_admin''"
  by code_simp

lemma parseInt_example:
  "parseInt ''12abc'' = Some 12 \<and> parseInt '' -7'' = Some (- 7) \<and> parseInt ''abc'' = None"
  by code_simp

lemma join_example:
  "join '', '' AvailableUserRoles = ''admin, project_admin, member''"
  by (simp add: AvailableUserRoles_def ADMIN_def PROJECT_ADMIN_def MEMBER_def)

section \<open>The example database\<close>

lemma valid_ids [simp]:
  "ObjectId_isValid P1" "ObjectId_isValid P2" "ObjectId_isValid P3"
  "ObjectId_isValid U1" "ObjectId_isValid U2" "ObjectId_isValid U3" "ObjectId_isValid U4"
  by (simp_all add: ObjectId_isValid_def is_hex_def P1_def P2_def P3_def U1_def U2_def U3_def U4_def)

lemma ids_distinct [simp]:
  "P1 \<noteq> P2" "P2 \<noteq> P1" "P1 \<noteq> P3" "P3 \<noteq> P1" "P2 \<noteq> P3" "P3 \<noteq> P2"
  "U1 \<noteq> U2" "U2 \<noteq> U1" "U1 \<noteq> U3" "U3 \<noteq> U1" "U1 \<noteq> U4" "U4 \<noteq> U1"
  "U2 \<noteq> U3" "U3 \<noteq> U2" "U2 \<noteq> U4" "U4 \<noteq> U2" "U3 \<noteq> U4" "U4 \<noteq> U3"
  by (simp_all add: P1_def P2_def P3_def U1_def U2_def U3_def U4_def)

lemma valid_task_ids [simp]:
  "ObjectId_isValid ''ddddddddddddddddddddddd1''" "ObjectId_isValid ''ddddddddddddddddddddddd2''"
  by (simp_all add: ObjectId_isValid_def is_hex_def)

lemma example_store_simps [simp]:
  "Projects example_store =
     [\<lparr>project_id = P1, project_name = ''Alpha'', project_description = [], createdBy = U1\<rparr>,
      \<lparr>project_id = P2, project_name = ''Beta'', project_description = [], createdBy = U3\<rparr>]"
  "ProjectMembers example_store =
     [\<lparr>member_id = ''ccccccccccccccccccccccc1'', member_project = P1, member_users = U1,
       member_role = ''admin''\<rparr>,
      \<lparr>member_id = ''ccccccccccccccccccccccc2'', member_project = P1, member_users = U2,
       member_role = ''member''\<rparr>,
      \<lparr>member_id = ''ccccccccccccccccccccccc3'', member_project = P1, member_users = U4,
       member_role = ''project_admin''\<rparr>,
      \<lparr>member_id = ''ccccccccccccccccccccccc4'', member_project = P2, member_users = U2,
       member_role = ''admin''\<rparr>]"
  "Tasks example_store =
     [\<lparr>task_id = ''ddddddddddddddddddddddd1'', task_title = ''Design'', task_description = [],
       task_project = P1, assignedBy = U1, assignedTo = Some U2, task_status = ''todo'',
       task_priority = ''medium'', dueDate = Some (Date 86400000)\<rparr>,
      \<lparr>task_id = ''ddddddddddddddddddddddd2'', task_title = ''Review'', task_description = [],
       task_project = P2, assignedBy = U3, assignedTo = None, task_status = ''todo'',
       task_priority = ''low'', dueDate = None\<rparr>]"
  "ProjectNotes example_store =
     [\<lparr>note_id = ''eeeeeeeeeeeeeeeeeeeeeee1'', note_project = P1, note_createdBy = U2,
       note_content = ''kickoff''\<rparr>,
      \<lparr>note_id = ''eeeeeeeeeeeeeeeeeeeeeee2'', note_project = P2, note_createdBy = U3,
       note_content = ''retro''\<rparr>]"
  "Users example_store =
     [\<lparr>user_id = U1, user_email = ''u1@example.com'', fullName = ''Ann''\<rparr>,
      \<lparr>user_id = U2, user_email = ''u2@example.com'', fullName = ''Bob''\<rparr>,
      \<lparr>user_id = U3, user_email = ''u3@example.com'', fullName = ''Cy''\<rparr>,
      \<lparr>user_id = U4, user_email = ''u4@example.com'', fullName = ''Di''\<rparr>]"
  by (simp_all add: example_store_def)

lemma trim_examples [simp]:
  "trim ''Gamma'' = ''Gamma''" "trim ''Alpha'' = ''Alpha''"
  "trim ''u3@example.com'' = ''u3@example.com''"
  by (simp_all add: trim_def is_space_def)

lemma toLowerCase_examples [simp]:
  "toLowerCase ''Admin'' = ''admin''"
  "toLowerCase ''owner'' = ''owner''"
  "toLowerCase ''u3@example.com'' = ''u3@example.com''"
  by code_simp+

lemma parseInt_empty [simp]: "parseInt [] = None"
  by (simp add: parseInt_def)

text \<open>The facts that evaluate a handler on the example database.\<close>

lemmas example_eval =
  tick_record rejects_record valid_ids ids_distinct valid_task_ids example_store_simps
  trim_examples toLowerCase_examples parseInt_empty

section \<open>The resolver\<close>

lemma find_not_None_iff: "(find P xs \<noteq> None) = (\<exists>x\<in>set xs. P x)"
  by (induction xs) auto

lemma isProjectMember_eq:
  "fst (isProjectMember w projectId userId) =
     (ObjectId_isValid projectId \<and> ObjectId_isValid userId \<and> \<not> rejects w 0 \<and>
      (case find (\<lambda>p. project_id p = projectId) (Projects (db w)) of
         None \<Rightarrow> False
       | Some project \<Rightarrow>
           createdBy project = userId \<or>
           (\<not> rejects w 1 \<and>
            (\<exists>m \<in> set (ProjectMembers (db w)).
               member_project m = projectId \<and> member_users m = userId))))"
  by (auto simp: isProjectMember_def Project_findById_def ProjectMember_findOne_def query_eq
      find_not_None_iff[symmetric] split: option.splits)

lemma isProjectMember_db [simp]: "db (snd (isProjectMember w p u)) = db w"
  by (auto simp: isProjectMember_def Project_findById_def ProjectMember_findOne_def query_eq
      split: option.splits)

lemma isProjectAdmin_db [simp]: "db (snd (isProjectAdmin w p u)) = db w"
  by (auto simp: isProjectAdmin_def Project_findById_def ProjectMember_findOne_def query_eq
      split: option.splits)

text \<open>
  C4. \<open>isProjectMember\<close> always returns a boolean, and it is \<open>True\<close> exactly when both
  ids are well-formed, the project lookup goes through and finds the project, and the
  user is its creator or (the membership lookup going through) a membership row of any
  role exists for (project, user). So it is \<open>False\<close> for a malformed id, for a project
  that does not exist and on a lookup error; and the creator of a project is a member of
  it whatever the membership rows are, with none at all too.
\<close>

theorem isProjectMember_iff:
  "fst (isProjectMember w projectId userId) =
     (ObjectId_isValid projectId \<and> ObjectId_isValid userId \<and> \<not> rejects w 0 \<and>
      (case find (\<lambda>p. project_id p = projectId) (Projects (db w)) of
         None \<Rightarrow> False
       | Some project \<Rightarrow>
           createdBy project = userId \<or>
           (\<not> rejects w 1 \<and>
            (\<exists>m \<in> set (ProjectMembers (db w)).
               member_project m = projectId \<and> member_users m = userId)))) \<and>
   (ObjectId_isValid projectId \<and> ObjectId_isValid (createdBy p) \<and> \<not> rejects w 0 \<and>
    find (\<lambda>p. project_id p = projectId) (Projects (db w)) = Some p \<longrightarrow>
      fst (isProjectMember w projectId (createdBy p)))"
  by (simp add: isProjectMember_eq)

theorem isProjectMember_iff_witness:
  "fst (isProjectMember \<lparr>db = example_store\<lparr>ProjectMembers := []\<rparr>, txn = None, pending = []\<rparr>
         P1 U1) \<and>
   fst (isProjectMember (example_world []) P1 U2) \<and>
   fst (isProjectMember (example_world []) P1 U4) \<and>
   fst (isProjectMember (example_world []) P1 U3) = False \<and>
   fst (isProjectMember (example_world []) ''P1'' U1) = False \<and>
   fst (isProjectMember (example_world []) P3 U1) = False \<and>
   fst (isProjectMember (example_world [True]) P1 U1) = False \<and>
   fst (isProjectMember (example_world [False, True]) P1 U2) = False"
proof -
  have bad: "\<not> ObjectId_isValid ''P1''"
    by (simp add: ObjectId_isValid_def)
  show ?thesis
  using bad
    isProjectMember_iff[of "\<lparr>db = example_store\<lparr>ProjectMembers := []\<rparr>, txn = None, pending = []\<rparr>"
      P1 U1 "\<lparr>project_id = P1, project_name = ''Alpha'', project_description = [], createdBy = U1\<rparr>"]
    isProjectMember_iff[of "example_world []" P1 U2]
    isProjectMember_iff[of "example_world []" P1 U4]
    isProjectMember_iff[of "example_world []" P1 U3]
    isProjectMember_iff[of "example_world []" "''P1''" U1]
    isProjectMember_iff[of "example_world []" P3 U1]
    isProjectMember_iff[of "example_world [True]" P1 U1]
    isProjectMember_iff[of "example_world [False, True]" P1 U2]
  by (simp add: example_world_def example_eval)
qed





lemma isProjectAdmin_eq:
  "fst (isProjectAdmin w projectId userId) =
     (ObjectId_isValid projectId \<and> ObjectId_isValid userId \<and> \<not> rejects w 0 \<and>
      (case find (\<lambda>p. project_id p = projectId) (Projects (db w)) of
         None \<Rightarrow> False
       | Some project \<Rightarrow>
           createdBy project = userId \<or>
           (\<not> rejects w 1 \<and>
            (case find (\<lambda>m. member_project m = projectId \<and> member_users m = userId)
                    (ProjectMembers (db w)) of
               None \<Rightarrow> False
             | Some m \<Rightarrow> member_role m = ''admin''))))"
  by (auto simp: isProjectAdmin_def Project_findById_def ProjectMember_findOne_def query_eq
      ADMIN_def split: option.splits)

lemma isProjectAdmin_only_if:
  assumes "fst (isProjectAdmin w projectId userId)"
  shows "\<exists>project \<in> set (Projects (db w)). project_id project = projectId \<and>
           (createdBy project = userId \<or>
            (\<exists>m \<in> set (ProjectMembers (db w)).
               member_project m = projectId \<and> member_users m = userId \<and>
               member_role m = ''admin''))"
proof -
  from assms obtain project where
    p: "find (\<lambda>p. project_id p = projectId) (Projects (db w)) = Some project" and
    c: "createdBy project = userId \<or>
        (case find (\<lambda>m. member_project m = projectId \<and> member_users m = userId)
                (ProjectMembers (db w)) of
           None \<Rightarrow> False
         | Some m \<Rightarrow> member_role m = ''admin'')"
    unfolding isProjectAdmin_eq by (auto split: option.splits)
  from p have pin: "project \<in> set (Projects (db w))" "project_id project = projectId"
    by (auto simp: find_Some_iff)
  from c show ?thesis
  proof
    assume "createdBy project = userId"
    with pin show ?thesis by blast
  next
    assume "case find (\<lambda>m. member_project m = projectId \<and> member_users m = userId)
                 (ProjectMembers (db w)) of
              None \<Rightarrow> False
            | Some m \<Rightarrow> member_role m = ''admin''"
    then obtain m where
      "find (\<lambda>m. member_project m = projectId \<and> member_users m = userId)
         (ProjectMembers (db w)) = Some m" "member_role m = ''admin''"
      by (auto split: option.splits)
    then have "m \<in> set (ProjectMembers (db w))" "member_project m = projectId"
      "member_users m = userId" "member_role m = ''admin''"
      by (auto simp: find_Some_iff)
    with pin show ?thesis by blast
  qed
qed




section \<open>Deleting a project\<close>

lemma rejects_update [simp]:
  "rejects (w\<lparr>txn := t\<rparr>) n = rejects w n" "rejects (w\<lparr>db := s\<rparr>) n = rejects w n"
  by (simp_all add: rejects_def)

lemma tick_update [simp]:
  "tick (w\<lparr>txn := t\<rparr>) = (tick w)\<lparr>txn := t\<rparr>" "tick (w\<lparr>db := s\<rparr>) = (tick w)\<lparr>db := s\<rparr>"
  by (simp_all add: tick_def storage_call_def split: list.splits)

lemma no_rejection_iff: "no_rejection w = (\<forall>n. \<not> rejects w n)"
  by (auto simp: no_rejection_def rejects_def list_all_length)

lemma no_rejection_tick: "no_rejection w \<Longrightarrow> no_rejection (tick w)"
  by (simp add: no_rejection_iff)

lemma isProjectAdmin_world:
  "snd (isProjectAdmin w p u) = w \<or> snd (isProjectAdmin w p u) = tick w \<or>
   snd (isProjectAdmin w p u) = tick (tick w)"
  by (auto simp: isProjectAdmin_def Project_findById_def ProjectMember_findOne_def query_eq
      split: option.splits)

lemma isProjectAdmin_no_rejection:
  "no_rejection w \<Longrightarrow> no_rejection (snd (isProjectAdmin w p u))"
  using isProjectAdmin_world[of w p u] by (auto simp: no_rejection_tick)

lemma isProjectAdmin_no_rejection_fst:
  "no_rejection w \<Longrightarrow> fst (isProjectAdmin w p u) = is_admin_of (db w) p u"
  by (auto simp: is_admin_of_def isProjectAdmin_eq no_rejection_iff split: option.splits)

lemma deleteProject_transaction_cases:
  assumes "txn w = Some s" and "deleteProject_transaction w p = (r, w')"
  shows "(\<exists>e. r = Inl e \<and> db w' = db w \<and> (e = StorageFailure \<and> txn w' = None \<or> txn w' \<noteq> None)) \<or>
         (r = Inr (ApiResponse 200 ''Project and all associated data deleted successfully'') \<and>
          db w' = without_project p s)"
  using assms
  unfolding deleteProject_transaction_def Project_findByIdAndDelete_def
    ProjectMember_deleteMany_def Task_deleteMany_def
  by (auto simp: mutate_eq commit_eq apply_write_def without_project_def
      split: if_splits option.splits)

lemma deleteProject_transaction_succeeds:
  assumes "txn w = Some s" and "no_rejection w"
  shows "fst (deleteProject_transaction w p) =
           Inr (ApiResponse 200 ''Project and all associated data deleted successfully'')"
  using assms
  unfolding deleteProject_transaction_def Project_findByIdAndDelete_def
    ProjectMember_deleteMany_def Task_deleteMany_def
  by (simp add: mutate_eq commit_eq apply_write_def no_rejection_iff)

lemma deleteProject_transaction_exact:
  assumes "txn w = Some s"
  shows "if rejects w 0 \<or> rejects w 1 \<or> rejects w 2 \<or> rejects w 3
         then (\<exists>e. fst (deleteProject_transaction w p) = Inl e) \<and>
              db (snd (deleteProject_transaction w p)) = db w
         else fst (deleteProject_transaction w p) =
                Inr (ApiResponse 200 ''Project and all associated data deleted successfully'') \<and>
              db (snd (deleteProject_transaction w p)) = without_project p s"
  using assms
  unfolding deleteProject_transaction_def Project_findByIdAndDelete_def
    ProjectMember_deleteMany_def Task_deleteMany_def
  by (auto simp: mutate_eq commit_eq apply_write_def without_project_def eval_nat_numeral)

lemma deleteProject_checked_cases:
  assumes "deleteProject_checked w a p = (r, w')"
  shows "(r \<noteq> Inr (ApiResponse 200 ''Project and all associated data deleted successfully'') \<and>
          db w' = db w) \<or>
         (r = Inr (ApiResponse 200 ''Project and all associated data deleted successfully'') \<and>
          db w' = without_project p (db w))"
proof -
  obtain b w2 where adm: "isProjectAdmin (tick w) p a = (b, w2)"
    by (cases "isProjectAdmin (tick w) p a")
  have d2: "db w2 = db w"
    using isProjectAdmin_db[of "tick w" p a] adm by simp
  obtain r4 w4 where t: "deleteProject_transaction (startTransaction (tick w2)) p = (r4, w4)"
    by (cases "deleteProject_transaction (startTransaction (tick w2)) p")
  have "txn (startTransaction (tick w2)) = Some (db w)" "db (startTransaction (tick w2)) = db w"
    using d2 by (simp_all add: startTransaction_def)
  from deleteProject_transaction_cases[OF this(1) t] this(2)
  have "(\<exists>e. r4 = Inl e \<and> db w4 = db w) \<or>
        (r4 = Inr (ApiResponse 200 ''Project and all associated data deleted successfully'') \<and>
         db w4 = without_project p (db w))"
    by auto
  then show ?thesis
    using assms adm d2 t
    by (auto simp: deleteProject_checked_def Project_findById_def query_eq startSession_eq
        abortTransaction_def split: if_splits option.splits)
qed

lemma deleteProject_cases:
  "(fst (deleteProject w a p) =
      Inr (ApiResponse 200 ''Project and all associated data deleted successfully'') \<and>
    db (snd (deleteProject w a p)) = without_project p (db w)) \<or>
   (fst (deleteProject w a p) \<noteq>
      Inr (ApiResponse 200 ''Project and all associated data deleted successfully'') \<and>
    db (snd (deleteProject w a p)) = db w)"
proof -
  obtain r w' where c: "deleteProject_checked w a p = (r, w')"
    by (cases "deleteProject_checked w a p")
  from deleteProject_checked_cases[OF c] show ?thesis
    by (auto simp: deleteProject_def c split: sum.splits)
qed

lemma is_admin_of_project:
  "is_admin_of s p a \<Longrightarrow>
     ObjectId_isValid p \<and> (\<exists>project. find (\<lambda>x. project_id x = p) (Projects s) = Some project)"
  by (auto simp: is_admin_of_def isProjectAdmin_eq split: option.splits)

lemma deleteProject_succeeds:
  assumes auth: "is_admin_of (db w) p a" and ok: "no_rejection w"
  shows "fst (deleteProject w a p) =
           Inr (ApiResponse 200 ''Project and all associated data deleted successfully'')"
proof -
  from is_admin_of_project[OF auth] obtain project where
    v: "ObjectId_isValid p" and f: "find (\<lambda>x. project_id x = p) (Projects (db w)) = Some project"
    by blast
  obtain b w2 where adm: "isProjectAdmin (tick w) p a = (b, w2)"
    by (cases "isProjectAdmin (tick w) p a")
  have ok1: "no_rejection (tick w)"
    using ok by (rule no_rejection_tick)
  have b: "b"
    using isProjectAdmin_no_rejection_fst[OF ok1, of p a] adm auth by simp
  have ok2: "no_rejection w2"
    using isProjectAdmin_no_rejection[OF ok1, of p a] adm by simp
  have ok3: "no_rejection (startTransaction (tick w2))"
    using no_rejection_tick[OF ok2] by (simp add: no_rejection_iff startTransaction_def)
  have t: "txn (startTransaction (tick w2)) = Some (db (tick w2))"
    by (simp add: startTransaction_def)
  obtain r4 w4 where tr: "deleteProject_transaction (startTransaction (tick w2)) p = (r4, w4)"
    by (cases "deleteProject_transaction (startTransaction (tick w2)) p")
  have r4: "r4 = Inr (ApiResponse 200 ''Project and all associated data deleted successfully'')"
    using deleteProject_transaction_succeeds[OF t ok3, of p] tr by simp
  have n0: "\<not> rejects w 0" "\<not> rejects w2 0"
    using ok ok2 by (simp_all add: no_rejection_iff)
  show ?thesis
    using v f adm b tr r4 n0
    by (simp add: deleteProject_def deleteProject_checked_def Project_findById_def query_eq
        startSession_eq)
qed

text \<open>
  C6. For an existing project and an actor authorized for it, \<open>deleteProject\<close> either
  answers 200, and then the committed store is the one before without the project,
  without any membership row and without any task row that references it; or some
  storage call rejected, the handler has not answered 200, and the committed store is
  exactly the one before. Hence where no storage call rejects, the project and its rows
  are deleted. Inside the transaction (\<open>deleteProject_transaction\<close>, the three deletes
  and the commit): when one of its four storage calls rejects, it fails and the committed
  store is unchanged; when none does, it answers 200 and the committed store is the
  transaction's initial one without the project and its rows. And whatever the actor, the
  project id and the storage calls that reject, the committed store after
  \<open>deleteProject\<close> is one of these two: no other state is ever committed.
\<close>

theorem deleteProject_all_or_nothing:
  "(is_admin_of (db w) p actor \<longrightarrow>
     (fst (deleteProject w actor p) =
        Inr (ApiResponse 200 ''Project and all associated data deleted successfully'') \<and>
      db (snd (deleteProject w actor p)) = without_project p (db w) \<and>
      \<not> list_ex (\<lambda>x. project_id x = p) (Projects (db (snd (deleteProject w actor p)))) \<and>
      \<not> list_ex (\<lambda>m. member_project m = p)
           (ProjectMembers (db (snd (deleteProject w actor p)))) \<and>
      \<not> list_ex (\<lambda>t. task_project t = p) (Tasks (db (snd (deleteProject w actor p))))) \<or>
     ((\<exists>n. rejects w n) \<and>
      fst (deleteProject w actor p) \<noteq>
        Inr (ApiResponse 200 ''Project and all associated data deleted successfully'') \<and>
      db (snd (deleteProject w actor p)) = db w)) \<and>
   (txn w0 = Some s \<longrightarrow>
     (if rejects w0 0 \<or> rejects w0 1 \<or> rejects w0 2 \<or> rejects w0 3
      then (\<exists>e. fst (deleteProject_transaction w0 p) = Inl e) \<and>
           db (snd (deleteProject_transaction w0 p)) = db w0
      else fst (deleteProject_transaction w0 p) =
             Inr (ApiResponse 200 ''Project and all associated data deleted successfully'') \<and>
           db (snd (deleteProject_transaction w0 p)) = without_project p s)) \<and>
   ((fst (deleteProject w actor p) =
       Inr (ApiResponse 200 ''Project and all associated data deleted successfully'') \<and>
     db (snd (deleteProject w actor p)) = without_project p (db w)) \<or>
    (fst (deleteProject w actor p) \<noteq>
       Inr (ApiResponse 200 ''Project and all associated data deleted successfully'') \<and>
     db (snd (deleteProject w actor p)) = db w))"
proof (intro conjI impI)
  assume auth: "is_admin_of (db w) p actor"
  show "(fst (deleteProject w actor p) =
        Inr (ApiResponse 200 ''Project and all associated data deleted successfully'') \<and>
      db (snd (deleteProject w actor p)) = without_project p (db w) \<and>
      \<not> list_ex (\<lambda>x. project_id x = p) (Projects (db (snd (deleteProject w actor p)))) \<and>
      \<not> list_ex (\<lambda>m. member_project m = p)
           (ProjectMembers (db (snd (deleteProject w actor p)))) \<and>
      \<not> list_ex (\<lambda>t. task_project t = p) (Tasks (db (snd (deleteProject w actor p))))) \<or>
     ((\<exists>n. rejects w n) \<and>
      fst (deleteProject w actor p) \<noteq>
        Inr (ApiResponse 200 ''Project and all associated data deleted successfully'') \<and>
      db (snd (deleteProject w actor p)) = db w)"
  proof (cases "no_rejection w")
    case True
    from deleteProject_succeeds[OF auth True] deleteProject_cases[of w actor p]
    show ?thesis
      by (auto simp: without_project_def list_ex_iff)
  next
    case False
    then have "\<exists>n. rejects w n"
      by (simp add: no_rejection_iff)
    with deleteProject_cases[of w actor p] show ?thesis
      by (auto simp: without_project_def list_ex_iff)
  qed
next
  assume "txn w0 = Some s"
  then show "if rejects w0 0 \<or> rejects w0 1 \<or> rejects w0 2 \<or> rejects w0 3
      then (\<exists>e. fst (deleteProject_transaction w0 p) = Inl e) \<and>
           db (snd (deleteProject_transaction w0 p)) = db w0
      else fst (deleteProject_transaction w0 p) =
             Inr (ApiResponse 200 ''Project and all associated data deleted successfully'') \<and>
           db (snd (deleteProject_transaction w0 p)) = without_project p s"
    by (rule deleteProject_transaction_exact)
next
  show "(fst (deleteProject w actor p) =
       Inr (ApiResponse 200 ''Project and all associated data deleted successfully'') \<and>
     db (snd (deleteProject w actor p)) = without_project p (db w)) \<or>
    (fst (deleteProject w actor p) \<noteq>
       Inr (ApiResponse 200 ''Project and all associated data deleted successfully'') \<and>
     db (snd (deleteProject w actor p)) = db w)"
    by (rule deleteProject_cases)
qed

lemma deleteProject_failure_examples:
  "deleteProject (example_world [False, False, False, True]) U1 P1 =
     (Inr NoResponse, example_world [])"
  "deleteProject (example_world [False, False, False, False, True]) U1 P1 =
     (Inr NoResponse, example_world [])"
  "deleteProject (example_world [False, False, False, False, False, True]) U1 P1 =
     (Inr NoResponse, example_world [])"
  "deleteProject (example_world [False, False, False, False, False, False, True]) U1 P1 =
     (Inl (ApiError 500 ''Internal server error while deleting project''), example_world [])"
  by (simp_all add: deleteProject_def deleteProject_checked_def deleteProject_transaction_def
      Project_findById_def Project_findByIdAndDelete_def ProjectMember_deleteMany_def
      Task_deleteMany_def isProjectAdmin_def query_eq mutate_eq commit_eq startSession_eq
      startTransaction_def abortTransaction_def apply_write_def example_world_def example_eval)

lemma is_admin_of_example: "is_admin_of (db (example_world bs)) P1 U1"
  by (simp add: is_admin_of_def isProjectAdmin_def Project_findById_def query_eq
      example_world_def example_eval)

theorem deleteProject_all_or_nothing_witness:
  "is_admin_of (db (example_world [])) P1 U1 \<and>
   fst (deleteProject (example_world []) U1 P1) =
     Inr (ApiResponse 200 ''Project and all associated data deleted successfully'') \<and>
   map project_id (Projects (db (snd (deleteProject (example_world []) U1 P1)))) = [P2] \<and>
   map member_project (ProjectMembers (db (snd (deleteProject (example_world []) U1 P1)))) =
     [P2] \<and>
   map task_project (Tasks (db (snd (deleteProject (example_world []) U1 P1)))) = [P2] \<and>
   rejects (example_world [False, False, False, False, True]) 4 \<and>
   fst (deleteProject (example_world [False, False, False, False, True]) U1 P1) =
     Inr NoResponse \<and>
   db (snd (deleteProject (example_world [False, False, False, False, True]) U1 P1)) =
     example_store \<and>
   fst (deleteProject (example_world [False, False, False, False, False, False, True]) U1 P1) =
     Inl (ApiError 500 ''Internal server error while deleting project'') \<and>
   db (snd (deleteProject (example_world [False, False, False, False, False, False, True])
     U1 P1)) = example_store \<and>
   txn (startTransaction (example_world [False, True])) = Some example_store \<and>
   rejects (startTransaction (example_world [False, True])) 1 \<and>
   (\<exists>e. fst (deleteProject_transaction (startTransaction (example_world [False, True])) P1) =
      Inl e) \<and>
   db (snd (deleteProject_transaction (startTransaction (example_world [False, True])) P1)) =
     example_store"
proof -
  have n: "\<And>n. \<not> rejects (example_world []) n"
    by (simp add: example_world_def)
  have r: "rejects (example_world [False, False, False, False, True]) 4"
    by (simp add: example_world_def eval_nat_numeral)
  have t: "txn (startTransaction (example_world [False, True])) = Some example_store"
    "db (startTransaction (example_world [False, True])) = example_store"
    "rejects (startTransaction (example_world [False, True])) 1"
    by (simp_all add: startTransaction_def example_world_def)
  show ?thesis
    using deleteProject_all_or_nothing[of "example_world []" P1 U1
        "startTransaction (example_world [False, True])" example_store]
      deleteProject_all_or_nothing[of "example_world [False, False, False, False, True]" P1 U1
        "startTransaction (example_world [False, True])" example_store]
      n r t is_admin_of_example[of "[]"]
    unfolding deleteProject_failure_examples
    by (simp add: example_world_def without_project_def example_eval)
qed

text \<open>
  C10. A \<open>deleteProject\<close> that commits (answers 200) leaves every note as it was, the
  notes of the deleted project among them, and every user; of the projects, membership
  rows and task rows it removes those of the deleted project and keeps all others, in
  their order.
\<close>

theorem deleteProject_frame:
  assumes "fst (deleteProject w actor p) =
             Inr (ApiResponse 200 ''Project and all associated data deleted successfully'')"
  shows "ProjectNotes (db (snd (deleteProject w actor p))) = ProjectNotes (db w) \<and>
         Users (db (snd (deleteProject w actor p))) = Users (db w) \<and>
         Projects (db (snd (deleteProject w actor p))) =
           filter (\<lambda>x. project_id x \<noteq> p) (Projects (db w)) \<and>
         ProjectMembers (db (snd (deleteProject w actor p))) =
           filter (\<lambda>m. member_project m \<noteq> p) (ProjectMembers (db w)) \<and>
         Tasks (db (snd (deleteProject w actor p))) =
           filter (\<lambda>t. task_project t \<noteq> p) (Tasks (db w))"
  using deleteProject_cases[of w actor p] assms
  by (auto simp: without_project_def)

lemma deleteProject_example:
  "fst (deleteProject (example_world []) U1 P1) =
     Inr (ApiResponse 200 ''Project and all associated data deleted successfully'')"
  by (simp add: deleteProject_def deleteProject_checked_def deleteProject_transaction_def
      Project_findById_def Project_findByIdAndDelete_def ProjectMember_deleteMany_def
      Task_deleteMany_def isProjectAdmin_def query_eq mutate_eq commit_eq startSession_eq
      startTransaction_def apply_write_def example_world_def example_eval
      tick_def storage_call_def)

theorem deleteProject_frame_witness:
  "fst (deleteProject (example_world []) U1 P1) =
     Inr (ApiResponse 200 ''Project and all associated data deleted successfully'') \<and>
   ProjectNotes (db (snd (deleteProject (example_world []) U1 P1))) =
     [\<lparr>note_id = ''eeeeeeeeeeeeeeeeeeeeeee1'', note_project = P1, note_createdBy = U2,
       note_content = ''kickoff''\<rparr>,
      \<lparr>note_id = ''eeeeeeeeeeeeeeeeeeeeeee2'', note_project = P2, note_createdBy = U3,
       note_content = ''retro''\<rparr>] \<and>
   map project_id (Projects (db (snd (deleteProject (example_world []) U1 P1)))) = [P2] \<and>
   map member_users (ProjectMembers (db (snd (deleteProject (example_world []) U1 P1)))) = [U2] \<and>
   map task_project (Tasks (db (snd (deleteProject (example_world []) U1 P1)))) = [P2]"
  using deleteProject_frame[OF deleteProject_example] deleteProject_example
  by (simp add: example_world_def example_eval)



section \<open>Creating a project\<close>

lemma createProject_transaction_cases:
  assumes "createProject_transaction w actor pid mid name description = (r, w')"
  shows "(\<exists>e. r = Inl e \<and> db w' = db w) \<or>
         (r = Inr (ApiResponse 201 ''Project created successfully'') \<and>
          \<not> list_ex (\<lambda>p. project_name p = name) (Projects (db w)) \<and>
          db w' = (db w)
            \<lparr>Projects := Projects (db w) @
               [\<lparr>project_id = pid, project_name = name,
                 project_description = (case description of None \<Rightarrow> [] | Some d \<Rightarrow> d),
                 createdBy = actor\<rparr>],
             ProjectMembers := ProjectMembers (db w) @
               [\<lparr>member_id = mid, member_project = pid, member_users = actor,
                 member_role = ''admin''\<rparr>]\<rparr>)"
  using assms
  unfolding createProject_transaction_def Project_create_def ProjectMember_create_def
    Project_findById_def
  by (auto simp: Let_def storage_call_eq mutate_eq query_eq commit_eq apply_write_def
      startTransaction_def view_def ADMIN_def split: if_splits option.splits)

lemma abort_catch:
  "\<exists>e' w2.
     (case abortTransaction w of
        (Inl e', w2) \<Rightarrow> (Inl e', w2)
      | (Inr u, w2) \<Rightarrow> (if c then Inl a else Inl b, w2)) = (Inl e' :: error + outcome, w2) \<and>
     db w2 = db w"
  by (auto simp: abortTransaction_def split: option.splits)

lemma createProject_cases:
  "(fst (createProject w actor pid mid name description) =
      Inr (ApiResponse 201 ''Project created successfully'') \<and>
    \<not> list_ex (\<lambda>p. project_name p = name) (Projects (db w)) \<and>
    db (snd (createProject w actor pid mid name description)) = (db w)
      \<lparr>Projects := Projects (db w) @
         [\<lparr>project_id = pid, project_name = name,
           project_description = (case description of None \<Rightarrow> [] | Some d \<Rightarrow> d),
           createdBy = actor\<rparr>],
       ProjectMembers := ProjectMembers (db w) @
         [\<lparr>member_id = mid, member_project = pid, member_users = actor,
           member_role = ''admin''\<rparr>]\<rparr>) \<or>
   ((\<exists>e. fst (createProject w actor pid mid name description) = Inl e) \<and>
    db (snd (createProject w actor pid mid name description)) = db w)"
proof -
  obtain r w' where c:
    "createProject_transaction (tick w) actor pid mid name description = (r, w')"
    by (cases "createProject_transaction (tick w) actor pid mid name description")
  show ?thesis
  proof (cases "trim name = [] \<or> rejects w 0")
    case True
    then show ?thesis
      by (auto simp: createProject_def startSession_eq)
  next
    case False
    show ?thesis
    proof (cases r)
      case (Inl e)
      obtain e' w2 where a:
        "(case abortTransaction w' of
            (Inl e', w2) \<Rightarrow> (Inl e', w2)
          | (Inr u, w2) \<Rightarrow>
              (if e = DuplicateKey
               then Inl (ApiError 400 ''A project with this Project name already exists'')
               else Inl (ApiError 500 ''Internal server error while creating project''),
               w2)) = (Inl e' :: error + outcome, w2)" and d: "db w2 = db w'"
        using abort_catch[where w = w' and c = "e = DuplicateKey"
            and a = "ApiError 400 ''A project with this Project name already exists''"
            and b = "ApiError 500 ''Internal server error while creating project''"]
        by blast
      from createProject_transaction_cases[OF c] Inl have "db w' = db w"
        by auto
      with False c Inl a d show ?thesis
        by (simp add: createProject_def startSession_eq)
    next
      case (Inr x)
      with createProject_transaction_cases[OF c] False c show ?thesis
        by (auto simp: createProject_def startSession_eq)
    qed
  qed
qed

text \<open>
  C2, as amended. For every actor, name and pattern of rejecting storage calls,
  \<open>createProject\<close> either answers 201 and commits exactly one new project row together
  with exactly one new membership row that binds the actor to that project with the role
  \<^verbatim>\<open>admin\<close>, or fails and commits nothing: the store is the one before, so a re-read
  shows no row for the attempted name unless a project of that name existed before the
  call.
\<close>

theorem createProject_atomic:
  "(fst (createProject w actor pid mid name description) =
      Inr (ApiResponse 201 ''Project created successfully'') \<and>
    Projects (db (snd (createProject w actor pid mid name description))) =
      Projects (db w) @
        [\<lparr>project_id = pid, project_name = name,
          project_description = (case description of None \<Rightarrow> [] | Some d \<Rightarrow> d),
          createdBy = actor\<rparr>] \<and>
    ProjectMembers (db (snd (createProject w actor pid mid name description))) =
      ProjectMembers (db w) @
        [\<lparr>member_id = mid, member_project = pid, member_users = actor,
          member_role = ''admin''\<rparr>]) \<or>
   ((\<exists>e. fst (createProject w actor pid mid name description) = Inl e) \<and>
    db (snd (createProject w actor pid mid name description)) = db w \<and>
    (\<not> list_ex (\<lambda>p. project_name p = name) (Projects (db w)) \<longrightarrow>
       filter (\<lambda>p. project_name p = name)
         (Projects (db (snd (createProject w actor pid mid name description)))) = []))"
  using createProject_cases[of w actor pid mid name description]
  by (auto simp: list_ex_iff filter_empty_conv)



lemma createProject_between_writes:
  "createProject (example_world [False, False, True]) U2 P3 ''ccccccccccccccccccccccc9''
     ''Gamma'' None =
   (Inl (ApiError 500 ''Internal server error while creating project''), example_world [])"
  by (simp add: createProject_def createProject_transaction_def Project_create_def
      ProjectMember_create_def startSession_eq storage_call_eq mutate_eq
      startTransaction_def abortTransaction_def apply_write_def view_def example_world_def example_eval
      Let_def)


theorem createProject_atomic_witness:
  "fst (createProject (example_world [False, False, True]) U2 P3 ''ccccccccccccccccccccccc9''
     ''Gamma'' None) = Inl (ApiError 500 ''Internal server error while creating project'') \<and>
   db (snd (createProject (example_world [False, False, True]) U2 P3
     ''ccccccccccccccccccccccc9'' ''Gamma'' None)) = example_store \<and>
   filter (\<lambda>p. project_name p = ''Gamma'')
     (Projects (db (snd (createProject (example_world [False, False, True]) U2 P3
        ''ccccccccccccccccccccccc9'' ''Gamma'' None)))) = []"
  using createProject_atomic[of "example_world [False, False, True]" U2 P3
      "''ccccccccccccccccccccccc9''" "''Gamma''" None]
  unfolding createProject_between_writes
  by (simp add: example_world_def example_eval)

theorem createProject_duplicate_name_counterexample:
  "fst (createProject (example_world []) U2 P3 ''ccccccccccccccccccccccc9'' ''Alpha'' None) =
     Inl (ApiError 400 ''A project with this Project name already exists'') \<and>
   length (filter (\<lambda>p. project_name p = ''Alpha'')
     (Projects (db (snd (createProject (example_world []) U2 P3 ''ccccccccccccccccccccccc9''
        ''Alpha'' None))))) = 1"
  by (simp add: createProject_def createProject_transaction_def Project_create_def
      startSession_eq storage_call_eq startTransaction_def abortTransaction_def view_def
      example_world_def example_eval Let_def)

lemma createProject_example:
  "fst (createProject (example_world []) U2 P3 ''ccccccccccccccccccccccc9'' ''Gamma'' None) =
     Inr (ApiResponse 201 ''Project created successfully'')"
  by (simp add: createProject_def createProject_transaction_def Project_create_def
      ProjectMember_create_def Project_findById_def startSession_eq storage_call_eq mutate_eq
      query_eq commit_eq startTransaction_def apply_write_def view_def
      example_world_def example_eval Let_def)


section \<open>Removing a member\<close>

lemma removeMemberFromProject_checked_fails:
  "(\<exists>e. fst (removeMemberFromProject_checked w a p m) = Inl e) \<and>
   db (snd (removeMemberFromProject_checked w a p m)) = db w"
  by (auto simp: removeMemberFromProject_checked_def Project_findById_def
      ProjectMember_findOne_def query_eq select_lean_def Let_def split: option.splits)

lemma removeMemberFromProject_never_removes:
  "(\<exists>e. fst (removeMemberFromProject w a p m) = Inl e) \<and>
   db (snd (removeMemberFromProject w a p m)) = db w"
  using removeMemberFromProject_checked_fails[of w a p m]
  by (auto simp: removeMemberFromProject_def split: prod.splits sum.splits)

lemma removeMemberFromProject_valid:
  "ObjectId_isValid p \<Longrightarrow> ObjectId_isValid m \<Longrightarrow>
   fst (removeMemberFromProject w a p m) =
     Inl (ApiError 500 ''Internal server error while removing member from project'')"
  using removeMemberFromProject_checked_fails[of w a p m]
  by (auto simp: removeMemberFromProject_def split: prod.splits sum.splits)

text \<open>
  C1 (the code departs from the claim). \<open>U2\<close> holds a membership row of project \<open>P1\<close> and
  is not its creator. Whether the actor is \<open>U3\<close> (neither a member nor an admin of
  \<open>P1\<close>), \<open>U2\<close> (removing their own membership) or \<open>U1\<close> (the creator),
  \<open>removeMemberFromProject\<close> ends in the 500 error and the store is unchanged: no actor
  is answered 403, and no actor can remove the row.
\<close>

theorem removeMemberFromProject_never_forbidden:
  "removeMemberFromProject (example_world []) U3 P1 U2 =
     (Inl (ApiError 500 ''Internal server error while removing member from project''),
      example_world []) \<and>
   removeMemberFromProject (example_world []) U2 P1 U2 =
     (Inl (ApiError 500 ''Internal server error while removing member from project''),
      example_world []) \<and>
   removeMemberFromProject (example_world []) U1 P1 U2 =
     (Inl (ApiError 500 ''Internal server error while removing member from project''),
      example_world [])"
  by (simp add: removeMemberFromProject_def removeMemberFromProject_checked_def
      Project_findById_def ProjectMember_findOne_def query_eq select_lean_def Let_def
      example_world_def example_eval)

text \<open>
  The creator's membership row can be role-changed: here the creator of \<open>P1\<close> turns
  their own row from \<^verbatim>\<open>admin\<close> into \<^verbatim>\<open>member\<close>.
\<close>

lemma updateProjectMemberRole_creator_row:
  "fst (updateProjectMemberRole (example_world []) U1 P1 U1 (Some ''member'')) =
     Inr (ApiResponse 200 ''Project member role updated successfully'') \<and>
   map member_role (ProjectMembers (db (snd
     (updateProjectMemberRole (example_world []) U1 P1 U1 (Some ''member''))))) =
     [''member'', ''member'', ''project_admin'', ''admin'']"
  by (simp add: updateProjectMemberRole_def updateProjectMemberRole_checked_def
      ProjectMember_save_def Project_findById_def ProjectMember_findOne_def isProjectAdmin_def
      query_eq mutate_eq apply_write_def truthy_def str_def AvailableUserRoles_def ADMIN_def
      PROJECT_ADMIN_def MEMBER_def example_world_def example_eval)

text \<open>
  C3 (the code departs from the claim). \<open>U1\<close> is the creator of \<open>P1\<close> and holds a
  membership row. Removing that row is refused for every actor and the store is
  unchanged, but the error that reaches the caller is the 500 one: the 400 that the
  creator guard throws (last conjunct) is caught by the handler's own \<^verbatim>\<open>catch\<close> and
  replaced.
\<close>

theorem removeMemberFromProject_creator_is_internal_error:
  "removeMemberFromProject (example_world []) U1 P1 U1 =
     (Inl (ApiError 500 ''Internal server error while removing member from project''),
      example_world []) \<and>
   removeMemberFromProject (example_world []) U2 P1 U1 =
     (Inl (ApiError 500 ''Internal server error while removing member from project''),
      example_world []) \<and>
   removeMemberFromProject (example_world []) U3 P1 U1 =
     (Inl (ApiError 500 ''Internal server error while removing member from project''),
      example_world []) \<and>
   fst (removeMemberFromProject_checked (example_world []) U3 P1 U1) =
     Inl (ApiError 400 ''Project creator cannot be removed from the project'')"
  by (simp add: removeMemberFromProject_def removeMemberFromProject_checked_def
      Project_findById_def ProjectMember_findOne_def query_eq select_lean_def Let_def
      example_world_def example_eval)



section \<open>Listing tasks\<close>

lemma set_property_empty:
  "k \<noteq> ''__proto__'' \<Longrightarrow> set_property [] k v = [(k, v)]"
  "set_property [] ''__proto__'' v = []"
  by (simp_all add: set_property_def)

lemma getProjectTasks_checked_sort:
  "fst (getProjectTasks_checked R w a p q so sk li) = Inr spec \<Longrightarrow> spec_sort spec = so"
  by (auto simp: getProjectTasks_checked_def Project_findById_def Task_countDocuments_def
      Task_find_def query_eq Let_def split: option.splits prod.splits if_splits)

text \<open>
  \<open>getProjectTasks\<close> of project.controller.js keeps to its allow-list: whenever it sends a
  query, the sort specification has one key, which is the caller's \<^verbatim>\<open>sortBy\<close> when that
  is in the list and \<^verbatim>\<open>createdAt\<close> otherwise.
\<close>

lemma getProjectTasks_sort_allow_list:
  assumes "fst (getProjectTasks R w a p q) = Inr spec"
  shows "spec_sort spec =
           [(if str (q_sortBy q) \<in> set allowedSortBy then str (q_sortBy q) else ''createdAt'',
             if toLowerCase (case q_sortOrder q of None \<Rightarrow> ''desc'' | Some s \<Rightarrow> s) = ''asc''
             then 1 else - 1)]"
proof -
  let ?k = "if (case q_sortBy q of None \<Rightarrow> ''createdAt'' | Some s \<Rightarrow> s) \<in> set allowedSortBy
            then (case q_sortBy q of None \<Rightarrow> ''createdAt'' | Some s \<Rightarrow> s) else ''createdAt''"
  have k: "?k \<noteq> ''__proto__''"
    by (auto simp: allowedSortBy_def)
  have k': "?k = (if str (q_sortBy q) \<in> set allowedSortBy then str (q_sortBy q)
                  else ''createdAt'')"
    by (auto simp: str_def allowedSortBy_def split: option.splits)
  let ?o = "if toLowerCase (case q_sortOrder q of None \<Rightarrow> ''desc'' | Some s \<Rightarrow> s) = ''asc''
            then 1 else - 1 :: int"
  let ?page = "case (case q_page q of None \<Rightarrow> Some 1 | Some s \<Rightarrow> parseInt s) of
                 None \<Rightarrow> 1 | Some n \<Rightarrow> if n > 0 then n else 1"
  let ?limit = "case (case q_limit q of None \<Rightarrow> Some 10 | Some s \<Rightarrow> parseInt s) of
                  None \<Rightarrow> 10 | Some n \<Rightarrow> if n > 0 then n else 10"
  let ?c = "getProjectTasks_checked R w a p q (set_property [] ?k ?o) ((?page - 1) * ?limit)
              ?limit"
  have v: "ObjectId_isValid p"
    using assms by (auto simp: getProjectTasks_def split: if_splits)
  have "getProjectTasks R w a p q =
          (case ?c of
             (Inl e, w') \<Rightarrow>
               (Inl (ApiError 500 ''Internal server error while getting project tasks''), w')
           | (Inr r, w') \<Rightarrow> (Inr r, w'))"
    using v by (simp add: getProjectTasks_def Let_def)
  with assms have c: "fst ?c = Inr spec"
    by (cases ?c) (auto split: sum.splits)
  show ?thesis
    using getProjectTasks_checked_sort[OF c] k
    unfolding k'[symmetric]
    by (simp add: set_property_empty(1))
qed

lemma getProjectTasks_example:
  "fst (getProjectTasks R (example_world []) U1 P1 (no_query\<lparr>q_sortBy := Some ''dueDate''\<rparr>)) =
     Inr \<lparr>spec_filter =
            \<lparr>f_project = P1, f_status = None, f_assignedTo = None, f_priority = None,
             f_regex = None, f_text = None\<rparr>,
          spec_sort = [(''createdAt'', - 1)], spec_skip = 0, spec_limit = 10\<rparr>"
proof -
  have l: "toLowerCase ''desc'' = ''desc''"
    by code_simp
  show ?thesis
    by (simp add: getProjectTasks_def getProjectTasks_checked_def isProjectMember_def
        Project_findById_def Task_countDocuments_def Task_find_def query_eq Let_def
        set_property_def allowedSortBy_def truthy_def str_def no_query_def example_world_def
        example_eval l)
qed

lemma helper_isProjectMember_throws:
  "helper_isProjectMember w p u = (Inl ReferenceError, w)"
  by (simp add: helper_isProjectMember_def helper_mongoose_def)

lemma helper_isProjectAdmin_throws:
  "helper_isProjectAdmin w p u = (Inl ReferenceError, w)"
  by (simp add: helper_isProjectAdmin_def helper_mongoose_def)

text \<open>
  \<open>getProjectTask\<close> of task.controller.js answers no request with a list: where the
  project is found, the helper's membership check throws, and every other path ends in
  an error too.
\<close>

lemma getProjectTask_fails:
  "fst (getProjectTask w actor p q) =
     Inl (ApiError 500 ''Internal server error while getting project tasks'') \<and>
   db (snd (getProjectTask w actor p q)) = db w"
  by (auto simp: getProjectTask_def getProjectTask_checked_def Project_findById_def query_eq
      helper_isProjectMember_throws split: option.splits)

text \<open>
  C7 (the code departs from the claim). Asked by the creator of \<open>P1\<close> to list its tasks
  sorted by \<^verbatim>\<open>dueDate\<close>, which is not among the sortable fields, or by \<^verbatim>\<open>__proto__\<close>,
  \<open>getProjectTask\<close> of task.controller.js does not answer with the tasks sorted by
  \<^verbatim>\<open>createdAt\<close>: it ends in the 500 error, because the membership check of utils/helper.js
  throws a \<^verbatim>\<open>ReferenceError\<close> (third conjunct) before the sort specification is built. And
  the sort specification that the handler's lines 50 to 52 build has no allow-list: it
  carries the caller's \<^verbatim>\<open>dueDate\<close>, and it is empty for \<^verbatim>\<open>__proto__\<close>; in neither case
  is it \<^verbatim>\<open>createdAt\<close>.
\<close>

theorem getProjectTask_no_default_sort:
  "getProjectTask (example_world []) U1 P1 (no_query\<lparr>q_sort := Some ''dueDate''\<rparr>) =
     (Inl (ApiError 500 ''Internal server error while getting project tasks''),
      example_world []) \<and>
   getProjectTask (example_world []) U1 P1 (no_query\<lparr>q_sort := Some ''__proto__''\<rparr>) =
     (Inl (ApiError 500 ''Internal server error while getting project tasks''),
      example_world []) \<and>
   fst (getProjectTask_checked (example_world []) U1 P1
          (no_query\<lparr>q_sort := Some ''dueDate''\<rparr>)) = Inl ReferenceError \<and>
   getProjectTask_sortOptions (no_query\<lparr>q_sort := Some ''dueDate''\<rparr>) = [(''dueDate'', - 1)] \<and>
   getProjectTask_sortOptions (no_query\<lparr>q_sort := Some ''__proto__''\<rparr>) = [] \<and>
   getProjectTask_sortOptions no_query = [(''createdAt'', - 1)]"
  by (simp add: getProjectTask_def getProjectTask_checked_def getProjectTask_sortOptions_def
      helper_isProjectMember_def helper_mongoose_def Project_findById_def query_eq Let_def
      set_property_def no_query_def example_world_def example_eval)

section \<open>Adding a member\<close>

lemma find_Some_in_set: "find P xs = Some x \<Longrightarrow> x \<in> set xs"
  by (induction xs) (auto split: if_splits)

lemma addMemberToProject_checked_cases:
  "db (snd (addMemberToProject_checked w a mid p email mri)) = db w \<or>
   (\<exists>u \<in> set (Users (db w)).
      db (snd (addMemberToProject_checked w a mid p email mri)) = (db w)
        \<lparr>ProjectMembers := ProjectMembers (db w) @
           [\<lparr>member_id = mid, member_project = p, member_users = user_id u,
             member_role = (if mri \<in> set AvailableUserRoles then mri else MEMBER)\<rparr>]\<rparr>)"
proof -
  obtain b w2 where adm: "isProjectAdmin (tick w) p a = (b, w2)"
    by (cases "isProjectAdmin (tick w) p a")
  have d2: "db w2 = db w"
    using isProjectAdmin_db[of "tick w" p a] adm by simp
  show ?thesis
    using d2
    by (auto simp: addMemberToProject_checked_def Project_findById_def adm
        User_findOne_email_def ProjectMember_findOne_def ProjectMember_create_def query_eq
        mutate_eq apply_write_def Let_def
        dest: find_Some_in_set split: option.splits)
qed

text \<open>
  C8. A role whose lower-case form is one of \<^verbatim>\<open>admin\<close>, \<^verbatim>\<open>project_admin\<close>, \<^verbatim>\<open>member\<close> makes
  \<open>addMemberToProject\<close> fail with a 400 error before any storage call: the world,
  pending calls included, is the one before. So only a request without a role or with
  a role outside the list goes on, and whatever membership row the handler then creates
  has the role \<^verbatim>\<open>member\<close>.
\<close>

theorem addMemberToProject_role:
  "(r \<noteq> [] \<and> toLowerCase r \<in> set AvailableUserRoles \<longrightarrow>
      (\<exists>msg. addMemberToProject w actor mid p email (Some r) = (Inl (ApiError 400 msg), w))) \<and>
   (db (snd (addMemberToProject w actor mid p email role)) = db w \<or>
    (\<exists>u \<in> set (Users (db w)).
       db (snd (addMemberToProject w actor mid p email role)) = (db w)
         \<lparr>ProjectMembers := ProjectMembers (db w) @
            [\<lparr>member_id = mid, member_project = p, member_users = user_id u,
              member_role = ''member''\<rparr>]\<rparr>))"
proof
  show "r \<noteq> [] \<and> toLowerCase r \<in> set AvailableUserRoles \<longrightarrow>
      (\<exists>msg. addMemberToProject w actor mid p email (Some r) = (Inl (ApiError 400 msg), w))"
    by (simp add: addMemberToProject_def truthy_def str_def Let_def)
next
  let ?mri = "if truthy role then toLowerCase (str role) else MEMBER"
  have m: "\<not> (truthy role \<and> ?mri \<in> set AvailableUserRoles) \<Longrightarrow>
           (if ?mri \<in> set AvailableUserRoles then ?mri else MEMBER) = ''member''"
    by (auto simp: MEMBER_def)
  show "db (snd (addMemberToProject w actor mid p email role)) = db w \<or>
    (\<exists>u \<in> set (Users (db w)).
       db (snd (addMemberToProject w actor mid p email role)) = (db w)
         \<lparr>ProjectMembers := ProjectMembers (db w) @
            [\<lparr>member_id = mid, member_project = p, member_users = user_id u,
              member_role = ''member''\<rparr>]\<rparr>)"
  proof (cases "ObjectId_isValid p \<and> truthy email \<and> trim (str email) \<noteq> [] \<and>
                \<not> (truthy role \<and> ?mri \<in> set AvailableUserRoles)")
    case False
    then show ?thesis
      by (auto simp: addMemberToProject_def Let_def)
  next
    case True
    then have "snd (addMemberToProject w actor mid p email role) =
               snd (addMemberToProject_checked w actor mid p (str email) ?mri)"
      by (auto simp: addMemberToProject_def Let_def split: prod.splits sum.splits)
    then show ?thesis
      using addMemberToProject_checked_cases[of w actor mid p "str email" ?mri] m True
      by auto
  qed
qed

lemma addMemberToProject_example:
  "addMemberToProject (example_world []) U1 ''ccccccccccccccccccccccc9'' P1
     (Some ''u3@example.com'') (Some ''owner'') =
   (Inl (ApiError 500 ''Internal server error while adding member to project''),
    \<lparr>db = example_store\<lparr>ProjectMembers := ProjectMembers example_store @
            [\<lparr>member_id = ''ccccccccccccccccccccccc9'', member_project = P1,
              member_users = U3, member_role = ''member''\<rparr>]\<rparr>,
     txn = None, pending = []\<rparr>)"
  by (simp add: addMemberToProject_def addMemberToProject_checked_def isProjectAdmin_def
      Project_findById_def User_findOne_email_def ProjectMember_findOne_def
      ProjectMember_create_def query_eq mutate_eq apply_write_def Let_def truthy_def str_def
      AvailableUserRoles_def ADMIN_def PROJECT_ADMIN_def MEMBER_def example_world_def example_eval)

theorem addMemberToProject_role_witness:
  "addMemberToProject (example_world [True]) U1 ''ccccccccccccccccccccccc9'' P1
     (Some ''u3@example.com'') (Some ''Admin'') =
   (Inl (ApiError 400 ''Invalid role - Valid roles are admin, project_admin, member''),
    example_world [True]) \<and>
   ProjectMembers (db (snd (addMemberToProject (example_world []) U1
     ''ccccccccccccccccccccccc9'' P1 (Some ''u3@example.com'') (Some ''owner'')))) =
   ProjectMembers example_store @
     [\<lparr>member_id = ''ccccccccccccccccccccccc9'', member_project = P1, member_users = U3,
       member_role = ''member''\<rparr>]"
proof -
  have k: "''Admin'' \<noteq> [] \<and> toLowerCase ''Admin'' \<in> set AvailableUserRoles"
    by (simp add: AvailableUserRoles_def ADMIN_def)
  from addMemberToProject_role[of "''Admin''" "example_world [True]" U1
      "''ccccccccccccccccccccccc9''" P1 "Some ''u3@example.com''" "Some ''owner''"] k
  obtain msg where
    "addMemberToProject (example_world [True]) U1 ''ccccccccccccccccccccccc9'' P1
       (Some ''u3@example.com'') (Some ''Admin'') = (Inl (ApiError 400 msg), example_world [True])"
    by blast
  moreover have
    "fst (addMemberToProject (example_world [True]) U1 ''ccccccccccccccccccccccc9'' P1
       (Some ''u3@example.com'') (Some ''Admin'')) =
     Inl (ApiError 400 ''Invalid role - Valid roles are admin, project_admin, member'')"
    by (simp add: addMemberToProject_def Let_def truthy_def str_def AvailableUserRoles_def
        ADMIN_def PROJECT_ADMIN_def MEMBER_def)
  ultimately show ?thesis
    by (simp add: addMemberToProject_example)
qed



section \<open>Updating a task\<close>


lemma check_assignee_fails:
  "(\<exists>e. fst (check_assignee w task a) = Inl e) \<and> db (snd (check_assignee w task a)) = db w"
  by (auto simp: check_assignee_def User_findById_def query_eq helper_isProjectMember_throws
      split: option.splits)







end
